theory Spec2Isabelle
  imports Main
begin

section \<open>Values, exceptions and effects\<close>

text \<open>
  The two modules are Python. Their data are configuration documents (nested dictionaries
  read from JSON), strings and booleans; their effects are log records, lines printed to
  the operator, pauses, a prompt, and one external process per stack. A Python value is a
  \<open>pyval\<close>; a dictionary is a map from its (string) keys to values, since the code only
  uses \<open>get\<close> and subscription on it. Numbers with a fraction are floating point and are
  left out.
\<close>

datatype pyval =
    PNone
  | PBool bool
  | PInt int
  | PStr string
  | PList "pyval list"
  | PDict "string \<rightharpoonup> pyval"

text \<open>
  The exceptions the code can meet. Every value of \<open>exn\<close> is an instance of Python's class
  \<open>Exception\<close>, so \<^verbatim>\<open>except Exception\<close> catches each of them; the handlers of the source
  name only \<open>CalledProcessError\<close>, \<open>FileNotFoundError\<close> and \<open>JSONDecodeError\<close>, which are
  constructors of their own. \<open>AttributeError tn a\<close> is "\<open>tn\<close> object has no attribute
  \<open>a\<close>"; \<open>CalledProcessError rc out err\<close> carries the return code and the captured
  output; a TypeError says which of Python's checks failed (a call \<open>f\<close> given a keyword it
  has no parameter for, or left without some arguments; a value of a type that cannot be
  subscripted, or not by a string); the others carry their message.
\<close>

datatype type_error =
    Unexpected_keyword string string
  | Missing_arguments string "string list"
  | Not_subscriptable string
  | Bad_index string

datatype exn =
    AttributeError string string
  | KeyError string
  | TypeError type_error
  | ValueError string
  | FileNotFoundError string
  | JSONDecodeError string
  | CalledProcessError int string string
  | UnicodeEncodeError string
  | OtherException string

text \<open>
  An f-string is kept as the list of its pieces, in order: the literal text, the values
  substituted with \<^verbatim>\<open>{...}\<close>, \<^verbatim>\<open>str(e)\<close> of an exception, and colorama's colour codes.
\<close>

datatype colour = BLUE | GREEN | RED | YELLOW

datatype frag =
    Lit string
  | Val pyval
  | Str_exn exn
  | Fore colour
  | Style_RESET_ALL

type_synonym fstring = "frag list"

text \<open>The apostrophe, for the literals that end with one.\<close>

abbreviation apos :: string where
  "apos \<equiv> [CHR 0x27]"

datatype level = DEBUG | INFO | WARNING | ERROR

text \<open>
  What a run does to the world, in the order it does it. \<open>Log l m\<close> is a call of the
  logging module at level \<open>l\<close> (whether the record reaches a file depends on the level the
  process has configured, which is not followed here). \<open>Subprocess_run cmd\<close> is the
  moment \<^verbatim>\<open>subprocess.run\<close> starts the command; \<open>Subprocess_done\<close> the moment it has
  waited for the process and comes back (with a completed process, that is its return
  code, output and error output, or with an exception). \<open>Sleep n\<close> is \<^verbatim>\<open>time.sleep(n)\<close>,
  \<open>Fix_console\<close> is colorama's \<^verbatim>\<open>just_fix_windows_console()\<close>, \<open>Ask q\<close> is the question put to
  the operator, \<open>Dashboard_urls f\<close> the call \<^verbatim>\<open>generate_dashboard_urls(None, None, f)\<close> and
  \<open>Basic_config f l\<close> the call of \<^verbatim>\<open>logging.basicConfig\<close> with file \<open>f\<close> and level \<open>l\<close>.
\<close>

type_synonym completed = "int \<times> string \<times> string"

datatype event =
    Log level fstring
  | Print fstring
  | Sleep nat
  | Fix_console
  | Ask fstring
  | Subprocess_run "string list"
  | Subprocess_done "exn + completed"
  | Dashboard_urls string
  | Basic_config string int

type_synonym trace = "event list"

subsection \<open>Python's dictionary and string operations\<close>

definition type_name :: "pyval \<Rightarrow> string" where
  "type_name v =
     (case v of
        PNone \<Rightarrow> ''NoneType''
      | PBool _ \<Rightarrow> ''bool''
      | PInt _ \<Rightarrow> ''int''
      | PStr _ \<Rightarrow> ''str''
      | PList _ \<Rightarrow> ''list''
      | PDict _ \<Rightarrow> ''dict'')"

text \<open>
  \<^verbatim>\<open>obj.get(key, default)\<close>: only a dictionary has the method; on anything else Python
  raises AttributeError. \<^verbatim>\<open>obj.get(key)\<close> is \<open>py_get obj key PNone\<close>.
\<close>

definition py_get :: "pyval \<Rightarrow> string \<Rightarrow> pyval \<Rightarrow> exn + pyval" where
  "py_get obj key dflt =
     (case obj of
        PDict d \<Rightarrow> Inr (case d key of Some v \<Rightarrow> v | None \<Rightarrow> dflt)
      | _ \<Rightarrow> Inl (AttributeError (type_name obj) ''get''))"

text \<open>
  \<^verbatim>\<open>obj[key]\<close> with a string key: a dictionary without the key raises KeyError; a list or
  a string takes no string index, and None, a boolean or an integer cannot be
  subscripted at all (both TypeError).
\<close>

definition py_getitem :: "pyval \<Rightarrow> string \<Rightarrow> exn + pyval" where
  "py_getitem obj key =
     (case obj of
        PDict d \<Rightarrow> (case d key of Some v \<Rightarrow> Inr v | None \<Rightarrow> Inl (KeyError key))
      | PList _ \<Rightarrow> Inl (TypeError (Bad_index ''list''))
      | PStr _ \<Rightarrow> Inl (TypeError (Bad_index ''str''))
      | _ \<Rightarrow> Inl (TypeError (Not_subscriptable (type_name obj))))"

text \<open>The truth value \<^verbatim>\<open>if v:\<close> tests.\<close>

definition truthy :: "pyval \<Rightarrow> bool" where
  "truthy v =
     (case v of
        PNone \<Rightarrow> False
      | PBool b \<Rightarrow> b
      | PInt i \<Rightarrow> i \<noteq> 0
      | PStr s \<Rightarrow> s \<noteq> []
      | PList l \<Rightarrow> l \<noteq> []
      | PDict d \<Rightarrow> d \<noteq> Map.empty)"

text \<open>
  \<^verbatim>\<open>str.lower()\<close> and \<^verbatim>\<open>str.upper()\<close> on ASCII strings, which is what the platform module
  reports and what a level name is: the letters \<open>A\<close> to \<open>Z\<close> (codes 65 to 90) and \<open>a\<close> to \<open>z\<close>
  (97 to 122) differ in bit 5, that is by 32; every other character stays.
\<close>

definition lower_char :: "char \<Rightarrow> char" where
  "lower_char c =
     (case c of
        Char b0 b1 b2 b3 b4 b5 b6 b7 \<Rightarrow>
          if 65 \<le> (of_char c :: nat) \<and> (of_char c :: nat) \<le> 90
          then Char b0 b1 b2 b3 b4 True b6 b7
          else c)"

definition lower :: "string \<Rightarrow> string" where
  "lower s = map lower_char s"

definition upper_char :: "char \<Rightarrow> char" where
  "upper_char c =
     (case c of
        Char b0 b1 b2 b3 b4 b5 b6 b7 \<Rightarrow>
          if 97 \<le> (of_char c :: nat) \<and> (of_char c :: nat) \<le> 122
          then Char b0 b1 b2 b3 b4 False b6 b7
          else c)"

definition upper :: "string \<Rightarrow> string" where
  "upper s = map upper_char s"

section \<open>The capability detector (utils/detect.py)\<close>

text \<open>
  \<open>load_json_config\<close> is imported from \<^verbatim>\<open>utils.load\<close>, another module of the repository; it
  reads and parses files, and is taken as a parameter here: given what has happened so far
  and its argument (a path or a dictionary), it returns the configuration document or
  raises. The host is what \<^verbatim>\<open>platform.system()\<close> and \<^verbatim>\<open>platform.machine()\<close> report.
\<close>

type_synonym loader = "trace \<Rightarrow> pyval \<Rightarrow> exn + pyval"

record host =
  platform_system :: string
  platform_machine :: string

text \<open>The body of the \<^verbatim>\<open>try\<close> of \<open>detect_os\<close>.\<close>

definition detect_os_try ::
  "loader \<Rightarrow> host \<Rightarrow> pyval \<Rightarrow> trace \<Rightarrow> (exn + (string \<rightharpoonup> pyval)) \<times> trace" where
  "detect_os_try load_json_config h m4b_config_path_or_dict t =
     (case load_json_config t m4b_config_path_or_dict of
        Inl e \<Rightarrow> (Inl e, t)
      | Inr m4b_config \<Rightarrow>
          (let t1 = t @ [Log DEBUG [Lit ''Detecting OS type'']] in
           case py_get m4b_config ''system'' PNone of
             Inl e \<Rightarrow> (Inl e, t1)
           | Inr system \<Rightarrow>
               (case py_get system ''os_map'' PNone of
                  Inl e \<Rightarrow> (Inl e, t1)
                | Inr os_map \<Rightarrow>
                    (let os_type = lower (platform_system h) in
                     case py_get os_map os_type (PStr ''unknown'') of
                       Inl e \<Rightarrow> (Inl e, t1)
                     | Inr os_type' \<Rightarrow>
                         (Inr [''os_type'' \<mapsto> os_type'],
                          t1 @ [Log INFO [Lit ''OS type detected: '', Val os_type']])))))"

text \<open>\<^verbatim>\<open>except Exception as e\<close>: the error is logged and raised again.\<close>

definition detect_os ::
  "loader \<Rightarrow> host \<Rightarrow> pyval \<Rightarrow> trace \<Rightarrow> (exn + (string \<rightharpoonup> pyval)) \<times> trace" where
  "detect_os load_json_config h m4b_config_path_or_dict t =
     (case detect_os_try load_json_config h m4b_config_path_or_dict t of
        (Inl e, t') \<Rightarrow>
          (Inl e, t' @ [Log ERROR [Lit ''An error occurred while detecting OS: '', Str_exn e]])
      | (Inr r, t') \<Rightarrow> (Inr r, t'))"

definition detect_architecture_try ::
  "loader \<Rightarrow> host \<Rightarrow> pyval \<Rightarrow> trace \<Rightarrow> (exn + (string \<rightharpoonup> pyval)) \<times> trace" where
  "detect_architecture_try load_json_config h m4b_config_path_or_dict t =
     (case load_json_config t m4b_config_path_or_dict of
        Inl e \<Rightarrow> (Inl e, t)
      | Inr m4b_config \<Rightarrow>
          (let t1 = t @ [Log DEBUG [Lit ''Detecting system architecture'']] in
           case py_get m4b_config ''system'' PNone of
             Inl e \<Rightarrow> (Inl e, t1)
           | Inr system \<Rightarrow>
               (case py_get system ''arch_map'' PNone of
                  Inl e \<Rightarrow> (Inl e, t1)
                | Inr arch_map \<Rightarrow>
                    (let arch = lower (platform_machine h) in
                     case py_get arch_map arch (PStr ''unknown'') of
                       Inl e \<Rightarrow> (Inl e, t1)
                     | Inr dkarch \<Rightarrow>
                         (Inr [''arch'' \<mapsto> PStr arch, ''dkarch'' \<mapsto> dkarch],
                          t1 @ [Log INFO [Lit ''System architecture detected: '', Val (PStr arch),
                                          Lit '', Docker architecture has been set to '',
                                          Val dkarch]])))))"

definition detect_architecture ::
  "loader \<Rightarrow> host \<Rightarrow> pyval \<Rightarrow> trace \<Rightarrow> (exn + (string \<rightharpoonup> pyval)) \<times> trace" where
  "detect_architecture load_json_config h m4b_config_path_or_dict t =
     (case detect_architecture_try load_json_config h m4b_config_path_or_dict t of
        (Inl e, t') \<Rightarrow>
          (Inl e,
           t' @ [Log ERROR [Lit ''An error occurred while detecting architecture: '', Str_exn e]])
      | (Inr r, t') \<Rightarrow> (Inr r, t'))"

section \<open>The stack launcher (utils/fn_startStack.py)\<close>

text \<open>
  What the launcher asks of the world. The file system is the one the run finds
  (\<^verbatim>\<open>os.path.isdir\<close>, \<^verbatim>\<open>os.path.isfile\<close>, \<^verbatim>\<open>os.listdir\<close>, \<^verbatim>\<open>os.makedirs\<close>); the operator's
  answer, the outcome of the external process and of the dashboard helper may differ from
  one call to the next, so they are given the trace of what has happened so far.
  \<open>ask_question_yn\<close>, \<open>generate_dashboard_urls\<close> and this module's \<open>load_json_config\<close> are
  imported from other modules of the repository (\<^verbatim>\<open>utils.prompt_helper\<close>, \<^verbatim>\<open>utils.generator\<close>,
  \<^verbatim>\<open>utils.loader\<close>) and are parameters as well.

  Standard output is taken to be open. What \<^verbatim>\<open>print\<close> can still fail on is the text: a
  substituted value that the console's encoding cannot write raises (UnicodeEncodeError)
  and nothing is written. \<open>stdout_error\<close> tells, for a text, the exception its print
  raises, if any. The constant texts of the source are ASCII and are always written.
  \<^verbatim>\<open>logging.basicConfig(filename=...)\<close> opens the log file, which can fail as
  \<^verbatim>\<open>os.makedirs\<close> can. The calls of the logging functions themselves do not raise: the
  logging module handles the errors of its handlers.
\<close>

record env =
  os_path_isdir :: "string \<Rightarrow> bool"
  os_path_isfile :: "string \<Rightarrow> bool"
  os_listdir :: "string \<Rightarrow> exn + string list"
  os_makedirs :: "string \<Rightarrow> exn + unit"
  ask_question_yn :: "trace \<Rightarrow> fstring \<Rightarrow> exn + bool"
  subprocess_run :: "trace \<Rightarrow> string list \<Rightarrow> exn + completed"
  generate_dashboard_urls :: "trace \<Rightarrow> string \<Rightarrow> exn + unit"
  loader_load_json_config :: loader
  stdout_error :: "fstring \<Rightarrow> exn option"
  logging_basicConfig :: "string \<Rightarrow> int \<Rightarrow> exn + unit"

text \<open>\<^verbatim>\<open>print\<close> of a text with substituted values.\<close>

definition py_print :: "env \<Rightarrow> fstring \<Rightarrow> trace \<Rightarrow> (exn + unit) \<times> trace" where
  "py_print env msg t =
     (case stdout_error env msg of
        Some e \<Rightarrow> (Inl e, t)
      | None \<Rightarrow> (Inr (), t @ [Print msg]))"

text \<open>\<^verbatim>\<open>os.path.join\<close> of two components, as \<^verbatim>\<open>posixpath\<close> does it.\<close>

definition os_path_join :: "string \<Rightarrow> string \<Rightarrow> string" where
  "os_path_join a b =
     (case b of
        CHR ''/'' # _ \<Rightarrow> b
      | _ \<Rightarrow> if a = [] \<or> last a = CHR ''/'' then a @ b else a @ ''/'' @ b)"

text \<open>
  \<^verbatim>\<open>subprocess.run(cmd, check=True, capture_output=True, text=True)\<close>: the command is
  started and waited for; with \<^verbatim>\<open>check=True\<close> a return code other than 0 is raised as
  CalledProcessError.
\<close>

definition run_checked :: "env \<Rightarrow> string list \<Rightarrow> trace \<Rightarrow> (exn + completed) \<times> trace" where
  "run_checked env cmd t =
     (let t1 = t @ [Subprocess_run cmd];
          outcome = subprocess_run env t1 cmd
      in (case outcome of
            Inl e \<Rightarrow> Inl e
          | Inr (returncode, out, err) \<Rightarrow>
              if returncode \<noteq> 0 then Inl (CalledProcessError returncode out err)
              else Inr (returncode, out, err),
          t1 @ [Subprocess_done outcome]))"

text \<open>The command line \<open>start_stack\<close> runs, and the body of its \<^verbatim>\<open>try\<close>.\<close>

definition up_command :: "string \<Rightarrow> string \<Rightarrow> string list" where
  "up_command compose_file env_file =
     [''docker'', ''compose'', ''-f'', compose_file, ''--env-file'', env_file, ''up'', ''-d'']"

definition start_stack_try ::
  "env \<Rightarrow> string \<Rightarrow> string \<Rightarrow> pyval \<Rightarrow> trace \<Rightarrow> (exn + unit) \<times> trace" where
  "start_stack_try env compose_file env_file instance_name t =
     (case run_checked env (up_command compose_file env_file) t of
        (Inl e, t1) \<Rightarrow> (Inl e, t1)
      | (Inr (returncode, out, err), t1) \<Rightarrow>
          (case py_print env [Fore GREEN, Lit (''All Apps for '' @ apos), Val instance_name,
                              Lit ''' instance started successfully.'', Style_RESET_ALL] t1 of
             (Inl e, t2) \<Rightarrow> (Inl e, t2)
           | (Inr _, t2) \<Rightarrow>
               (let t3 = t2 @ [Sleep 2, Log INFO [Val (PStr out)], Dashboard_urls env_file]
                in case generate_dashboard_urls env t3 env_file of
                     Inl e \<Rightarrow> (Inl e, t3)
                   | Inr _ \<Rightarrow>
                       (Inr (),
                        t3 @ [Print [Fore YELLOW,
                                     Lit ''Use the previously generated apps nodes URLs to add your device in any apps dashboard that require node claiming/registration (e.g., Earnapp, ProxyRack, etc.)'',
                                     Style_RESET_ALL],
                              Sleep 2]))))"

text \<open>
  The two handlers of the \<^verbatim>\<open>try\<close>: \<^verbatim>\<open>except subprocess.CalledProcessError\<close> first, then
  \<^verbatim>\<open>except Exception\<close>. Each prints, logs and pauses, in that order, and does not raise
  the exception again; but what its own \<^verbatim>\<open>print\<close> raises is not caught by anything in
  \<open>start_stack\<close>, and the handler ends there.
\<close>

definition start_stack_except :: "env \<Rightarrow> pyval \<Rightarrow> exn \<Rightarrow> trace \<Rightarrow> (exn + unit) \<times> trace" where
  "start_stack_except env instance_name e t =
     (case e of
        CalledProcessError returncode out err \<Rightarrow>
          (case py_print env
                  [Fore RED, Lit (''Error starting Docker stack for '' @ apos), Val instance_name,
                   Lit ''' instance. Please check that docker is running and that the configuration is complete then try again.'',
                   Style_RESET_ALL] t of
             (Inl e', t') \<Rightarrow> (Inl e', t')
           | (Inr _, t') \<Rightarrow> (Inr (), t' @ [Log ERROR [Val (PStr err)], Sleep 2]))
      | _ \<Rightarrow>
          (case py_print env
                  [Fore RED, Lit (''An unexpected error occurred while starting the stack for '' @ apos),
                   Val instance_name, Lit ''' instance.'', Style_RESET_ALL] t of
             (Inl e', t') \<Rightarrow> (Inl e', t')
           | (Inr _, t') \<Rightarrow>
               (Inr (), t' @ [Log ERROR [Lit ''Unexpected error: '', Str_exn e], Sleep 2])))"

text \<open>
  The start of \<open>start_stack\<close>, up to the confirmation: the log record, the console fix and,
  unless the questions are skipped, the question to the operator. The result is whether
  to go on.
\<close>

definition start_stack_confirm ::
  "env \<Rightarrow> string \<Rightarrow> string \<Rightarrow> pyval \<Rightarrow> bool \<Rightarrow> trace \<Rightarrow> (exn + bool) \<times> trace" where
  "start_stack_confirm env compose_file env_file instance_name skip_questions t =
     (let t1 = t @ [Log INFO [Lit (''Starting stack for '' @ apos), Val instance_name,
                              Lit ''' instance with compose file: '', Val (PStr compose_file),
                              Lit '' and env file: '', Val (PStr env_file)],
                    Fix_console];
          question = [Lit (''This will launch all the apps for '' @ apos), Val instance_name,
                      Lit ''' instance using the configured .env file and the docker-compose.yaml file (Docker must be already installed and running). Do you wish to proceed?'']
      in if skip_questions then (Inr True, t1)
         else (ask_question_yn env (t1 @ [Ask question]) question, t1 @ [Ask question]))"

definition start_stack ::
  "env \<Rightarrow> string \<Rightarrow> string \<Rightarrow> pyval \<Rightarrow> bool \<Rightarrow> trace \<Rightarrow> (exn + unit) \<times> trace" where
  "start_stack env compose_file env_file instance_name skip_questions t =
     (case start_stack_confirm env compose_file env_file instance_name skip_questions t of
        (Inl e, t2) \<Rightarrow> (Inl e, t2)
      | (Inr False, t2) \<Rightarrow>
          (case py_print env [Fore BLUE, Lit (''Docker stack startup for '' @ apos), Val instance_name,
                              Lit ''' instance canceled.'', Style_RESET_ALL] t2 of
             (Inl e, t3) \<Rightarrow> (Inl e, t3)
           | (Inr _, t3) \<Rightarrow> (Inr (), t3 @ [Sleep 2]))
      | (Inr True, t2) \<Rightarrow>
          (case start_stack_try env compose_file env_file instance_name t2 of
             (Inl e, t3) \<Rightarrow> start_stack_except env instance_name e t3
           | (Inr _, t3) \<Rightarrow> (Inr (), t3)))"

text \<open>
  The loop of \<open>start_multi_proxy_instances\<close> over the directory listing, one entry after
  the other: \<open>start_instance\<close> is one turn of it.
\<close>

definition start_instance :: "env \<Rightarrow> string \<Rightarrow> bool \<Rightarrow> string \<Rightarrow> trace \<Rightarrow> trace" where
  "start_instance env instances_dir skip_questions instance t =
     (let instance_dir = os_path_join instances_dir instance;
          compose_file = os_path_join instance_dir ''docker-compose.yaml'';
          env_file = os_path_join instance_dir ''.env''
      in if os_path_isfile env compose_file \<and> os_path_isfile env env_file
         then (case start_stack env compose_file env_file (PStr instance) skip_questions t of
                 (Inl e, t') \<Rightarrow>
                   t' @ [Log ERROR [Lit (''Failed to start instance '' @ apos), Val (PStr instance),
                                    Lit ''': '', Str_exn e]]
               | (Inr _, t') \<Rightarrow> t')
         else t)"

fun start_instances :: "env \<Rightarrow> string \<Rightarrow> bool \<Rightarrow> string list \<Rightarrow> trace \<Rightarrow> trace" where
  "start_instances env instances_dir skip_questions [] t = t"
| "start_instances env instances_dir skip_questions (instance # rest) t =
     start_instances env instances_dir skip_questions rest
       (start_instance env instances_dir skip_questions instance t)"

definition start_multi_proxy_instances ::
  "env \<Rightarrow> string \<Rightarrow> bool \<Rightarrow> trace \<Rightarrow> (exn + unit) \<times> trace" where
  "start_multi_proxy_instances env instances_dir skip_questions t =
     (if os_path_isdir env instances_dir
      then (let t1 = t @ [Print [Fore YELLOW, Lit ''Starting multi-proxy instances...'', Style_RESET_ALL]]
            in case os_listdir env instances_dir of
                 Inl e \<Rightarrow> (Inl e, t1)
               | Inr entries \<Rightarrow>
                   (Inr (),
                    start_instances env instances_dir skip_questions entries t1 @
                    [Print [Fore GREEN, Lit ''All multi-proxy instances started successfully.'',
                            Style_RESET_ALL]]))
      else (Inr (),
            t @ [Log WARNING [Lit (''Multi-proxy instances directory '' @ apos), Val (PStr instances_dir),
                              Lit ''' does not exist.'']]))"

text \<open>The body of the \<^verbatim>\<open>try\<close> of \<open>main\<close>.\<close>

definition main_try :: "env \<Rightarrow> pyval \<Rightarrow> pyval \<Rightarrow> pyval \<Rightarrow> trace \<Rightarrow> (exn + unit) \<times> trace" where
  "main_try env app_config_path m4b_config_path user_config_path t =
     (case loader_load_json_config env t m4b_config_path of
        Inl e \<Rightarrow> (Inl e, t)
      | Inr m4b_config \<Rightarrow>
     (case loader_load_json_config env t user_config_path of
        Inl e \<Rightarrow> (Inl e, t)
      | Inr user_config \<Rightarrow>
     (case py_get m4b_config ''project'' (PDict Map.empty) of
        Inl e \<Rightarrow> (Inl e, t)
      | Inr project \<Rightarrow>
     (case py_get project ''compose_project_name'' (PStr ''money4band'') of
        Inl e \<Rightarrow> (Inl e, t)
      | Inr base_instance_name \<Rightarrow>
     (case start_stack env ''./docker-compose.yaml'' ''./.env'' base_instance_name False t of
        (Inl e, t1) \<Rightarrow> (Inl e, t1)
      | (Inr _, t1) \<Rightarrow>
     (case py_getitem user_config ''proxies'' of
        Inl e \<Rightarrow> (Inl e, t1)
      | Inr proxies \<Rightarrow>
     (case py_get proxies ''enabled'' (PBool False) of
        Inl e \<Rightarrow> (Inl e, t1)
      | Inr enabled \<Rightarrow>
          if truthy enabled
          then start_multi_proxy_instances env ''m4b_proxy_instances'' True t1
          else (Inr (), t1))))))))"

text \<open>
  \<open>main\<close> catches FileNotFoundError, JSONDecodeError and every other Exception; each handler
  logs, then prints, and returns. What the handler's own \<^verbatim>\<open>print\<close> raises leaves \<open>main\<close>.
\<close>

definition main :: "env \<Rightarrow> pyval \<Rightarrow> pyval \<Rightarrow> pyval \<Rightarrow> trace \<Rightarrow> (exn + unit) \<times> trace" where
  "main env app_config_path m4b_config_path user_config_path t =
     (case main_try env app_config_path m4b_config_path user_config_path t of
        (Inr _, t') \<Rightarrow> (Inr (), t')
      | (Inl e, t') \<Rightarrow>
          (case e of
             FileNotFoundError _ \<Rightarrow>
               py_print env [Fore RED, Lit ''File not found: '', Str_exn e, Style_RESET_ALL]
                 (t' @ [Log ERROR [Lit ''File not found: '', Str_exn e]])
           | JSONDecodeError _ \<Rightarrow>
               py_print env [Fore RED, Lit ''Error decoding JSON: '', Str_exn e, Style_RESET_ALL]
                 (t' @ [Log ERROR [Lit ''Error decoding JSON: '', Str_exn e]])
           | _ \<Rightarrow>
               py_print env [Fore RED, Lit ''An unexpected error occurred: '', Str_exn e,
                             Style_RESET_ALL]
                 (t' @ [Log ERROR [Lit ''An unexpected error occurred in main function: '',
                                   Str_exn e]])))"

text \<open>
  Calling \<open>main\<close> with keyword arguments. Its signature (line 80 of the source) has the
  three parameters of \<open>main_params\<close>, none with a default, and no \<^verbatim>\<open>**kwargs\<close>. Python
  binds the keywords before it runs the body: a keyword that names no parameter raises
  TypeError, and so does a parameter left without a value.
\<close>

definition main_params :: "string list" where
  "main_params = [''app_config_path'', ''m4b_config_path'', ''user_config_path'']"

definition call_main :: "env \<Rightarrow> (string \<times> pyval) list \<Rightarrow> trace \<Rightarrow> (exn + unit) \<times> trace" where
  "call_main env kwargs t =
     (case filter (\<lambda>k. k \<notin> set main_params) (map fst kwargs) of
        k # _ \<Rightarrow> (Inl (TypeError (Unexpected_keyword ''main'' k)), t)
      | [] \<Rightarrow>
          (case (map_of kwargs ''app_config_path'', map_of kwargs ''m4b_config_path'',
                 map_of kwargs ''user_config_path'') of
             (Some app_config_path, Some m4b_config_path, Some user_config_path) \<Rightarrow>
               main env app_config_path m4b_config_path user_config_path t
           | _ \<Rightarrow>
               (Inl (TypeError (Missing_arguments ''main''
                                  (filter (\<lambda>p. map_of kwargs p = None) main_params))), t)))"

text \<open>
  The script's \<^verbatim>\<open>__main__\<close> block, from the parsed command line on. \<open>logging_level\<close> is
  \<^verbatim>\<open>getattr(logging, name, None)\<close> for the upper-case names whose value is an integer: the
  level names of the logging module.
\<close>

definition logging_level :: "string \<Rightarrow> int option" where
  "logging_level name =
     map_of [(''CRITICAL'', 50), (''FATAL'', 50), (''ERROR'', 40), (''WARNING'', 30),
             (''WARN'', 30), (''INFO'', 20), (''DEBUG'', 10), (''NOTSET'', 0)] name"

record args =
  app_config :: string
  m4b_config :: string
  user_config :: string
  log_dir :: string
  log_file :: string
  log_level :: string
  skip_questions :: bool

definition script :: "env \<Rightarrow> args \<Rightarrow> trace \<Rightarrow> (exn + unit) \<times> trace" where
  "script env a t =
     (case logging_level (upper (log_level a)) of
        None \<Rightarrow> (Inl (ValueError (''Invalid log level: '' @ log_level a)), t)
      | Some lvl \<Rightarrow>
     (case os_makedirs env (log_dir a) of
        Inl e \<Rightarrow> (Inl e, t)
      | Inr _ \<Rightarrow>
     (case logging_basicConfig env (os_path_join (log_dir a) (log_file a)) lvl of
        Inl e \<Rightarrow> (Inl e, t)
      | Inr _ \<Rightarrow>
          (let t1 = t @ [Basic_config (os_path_join (log_dir a) (log_file a)) lvl,
                         Log INFO [Lit ''Starting fn_startStack script...'']]
           in case call_main env
                     [(''app_config_path'', PStr (app_config a)),
                      (''m4b_config_path'', PStr (m4b_config a)),
                      (''user_config_path'', PStr (user_config a)),
                      (''skip_questions'', PBool (skip_questions a))] t1 of
                (Inr _, t2) \<Rightarrow>
                  (Inr (), t2 @ [Log INFO [Lit ''fn_startStack script completed successfully'']])
              | (Inl e, t2) \<Rightarrow>
                  (Inl e,
                   t2 @ [Log ERROR
                           [(case e of
                               FileNotFoundError _ \<Rightarrow> Lit ''File not found: ''
                             | JSONDecodeError _ \<Rightarrow> Lit ''Error decoding JSON: ''
                             | _ \<Rightarrow> Lit ''An unexpected error occurred: ''),
                            Str_exn e]])))))"

section \<open>Reading a trace\<close>


text \<open>
  A call of \<open>start_stack\<close> is seen in the trace by the first thing it does: the log record
  "Starting stack for ...", here \<open>start_record\<close>. No other record of the two modules
  starts with that text, so \<open>stack_starts\<close> lists the calls of \<open>start_stack\<close> in order.
\<close>

definition start_record :: "pyval \<Rightarrow> string \<Rightarrow> string \<Rightarrow> event" where
  "start_record instance_name compose_file env_file =
     Log INFO [Lit (''Starting stack for '' @ apos), Val instance_name,
               Lit ''' instance with compose file: '', Val (PStr compose_file),
               Lit '' and env file: '', Val (PStr env_file)]"

definition is_start :: "event \<Rightarrow> bool" where
  "is_start ev =
     (case ev of
        Log l m \<Rightarrow>
          l = INFO \<and> (case m of Lit s # _ \<Rightarrow> s = ''Starting stack for '' @ apos | _ \<Rightarrow> False)
      | _ \<Rightarrow> False)"

definition stack_starts :: "trace \<Rightarrow> trace" where
  "stack_starts t = filter is_start t"

text \<open>
  The two files of an instance, whether a directory entry has both, and the record with
  which its launch starts.
\<close>

definition compose_file_of :: "string \<Rightarrow> string \<Rightarrow> string" where
  "compose_file_of instances_dir instance =
     os_path_join (os_path_join instances_dir instance) ''docker-compose.yaml''"

definition env_file_of :: "string \<Rightarrow> string \<Rightarrow> string" where
  "env_file_of instances_dir instance =
     os_path_join (os_path_join instances_dir instance) ''.env''"

definition complete :: "env \<Rightarrow> string \<Rightarrow> string \<Rightarrow> bool" where
  "complete env instances_dir instance =
     (os_path_isfile env (compose_file_of instances_dir instance) \<and>
      os_path_isfile env (env_file_of instances_dir instance))"

definition instance_start :: "string \<Rightarrow> string \<Rightarrow> event" where
  "instance_start instances_dir instance =
     start_record (PStr instance) (compose_file_of instances_dir instance)
       (env_file_of instances_dir instance)"

text \<open>
  The call of \<open>start_stack\<close> the loop makes for an instance, with the handler around it
  (lines 71 to 74 of the source): \<open>start_stack\<close> on the instance's two files and its name,
  and the record "Failed to start instance ..." when that call raises.
\<close>

definition call_start_stack :: "env \<Rightarrow> string \<Rightarrow> bool \<Rightarrow> trace \<Rightarrow> string \<Rightarrow> trace" where
  "call_start_stack env instances_dir skip t instance =
     (case start_stack env (compose_file_of instances_dir instance)
             (env_file_of instances_dir instance) (PStr instance) skip t of
        (Inl e, t') \<Rightarrow>
          t' @ [Log ERROR [Lit (''Failed to start instance '' @ apos), Val (PStr instance),
                           Lit ''': '', Str_exn e]]
      | (Inr _, t') \<Rightarrow> t')"

text \<open>
  The events that tell of a launch: the start records, and the start and the return of
  each external process.
\<close>

definition is_launch_event :: "event \<Rightarrow> bool" where
  "is_launch_event ev =
     (is_start ev \<or>
      (case ev of Subprocess_run _ \<Rightarrow> True | Subprocess_done _ \<Rightarrow> True | _ \<Rightarrow> False))"

definition launch_events :: "trace \<Rightarrow> trace" where
  "launch_events t = filter is_launch_event t"

text \<open>
  What one call of \<open>start_stack\<close> shows of itself: its start record alone (the operator
  declined, or the question failed; only when questions are asked), or its start record,
  the start of its command and the return of that process.
\<close>

definition stack_attempt :: "pyval \<Rightarrow> string \<Rightarrow> string \<Rightarrow> bool \<Rightarrow> trace \<Rightarrow> bool" where
  "stack_attempt instance_name compose_file env_file skip seg =
     (case seg of
        [a] \<Rightarrow> \<not> skip \<and> a = start_record instance_name compose_file env_file
      | [a, b, Subprocess_done outcome] \<Rightarrow>
          a = start_record instance_name compose_file env_file \<and>
          b = Subprocess_run (up_command compose_file env_file)
      | _ \<Rightarrow> False)"

definition instance_attempt :: "string \<Rightarrow> bool \<Rightarrow> string \<Rightarrow> trace \<Rightarrow> bool" where
  "instance_attempt instances_dir skip instance seg =
     stack_attempt (PStr instance) (compose_file_of instances_dir instance)
       (env_file_of instances_dir instance) skip seg"

text \<open>
  \<open>one_at_a_time busy es\<close>: going through \<open>es\<close>, with \<open>busy\<close> telling whether a process
  is being waited for at its start, no process is started while another is waited for,
  none comes back that was not started, and none is left at the end.
\<close>

fun one_at_a_time :: "bool \<Rightarrow> trace \<Rightarrow> bool" where
  "one_at_a_time busy [] = (\<not> busy)"
| "one_at_a_time busy (Subprocess_run cmd # es) = (\<not> busy \<and> one_at_a_time True es)"
| "one_at_a_time busy (Subprocess_done outcome # es) = (busy \<and> one_at_a_time False es)"
| "one_at_a_time busy (_ # es) = one_at_a_time busy es"

section \<open>Example inputs\<close>

text \<open>
  The configuration of the specification's example, given as a dictionary (so the loader
  hands it back), and two hosts: one the tables know, one they do not.
\<close>

definition example_os_map :: "string \<rightharpoonup> pyval" where
  "example_os_map = [''linux'' \<mapsto> PStr ''lin'', ''darwin'' \<mapsto> PStr ''mac'']"

definition example_arch_map :: "string \<rightharpoonup> pyval" where
  "example_arch_map = [''x86_64'' \<mapsto> PStr ''amd64'', ''arm64'' \<mapsto> PStr ''arm64'']"

definition example_system :: "string \<rightharpoonup> pyval" where
  "example_system =
     [''os_map'' \<mapsto> PDict example_os_map, ''arch_map'' \<mapsto> PDict example_arch_map]"

definition example_document :: "string \<rightharpoonup> pyval" where
  "example_document = [''system'' \<mapsto> PDict example_system]"

definition given_document :: loader where
  "given_document t src = Inr src"

definition linux_host :: host where
  "linux_host = \<lparr>platform_system = ''Linux'', platform_machine = ''x86_64''\<rparr>"

definition freebsd_host :: host where
  "freebsd_host = \<lparr>platform_system = ''FreeBSD'', platform_machine = ''RISCV64''\<rparr>"

text \<open>
  A machine for the launcher: the instances directory holds \<open>proxy1\<close> with both files and
  \<open>proxy2\<close> without its env file; the operator agrees to everything and every process
  succeeds. \<open>docker_down_env\<close> is the same machine with the orchestration command failing;
  \<open>ascii_console_env\<close> is that one with a console that writes ASCII only, on which an
  instance named \<open>caf\<close> and e acute (two bytes in UTF-8) cannot be printed;
  \<open>no_terminal_env\<close> has two complete instances and a prompt that fails for the first.
\<close>

definition instances_env :: env where
  "instances_env =
     \<lparr>os_path_isdir = (\<lambda>p. p = ''m4b_proxy_instances''),
      os_path_isfile = (\<lambda>p. p \<in> set [''m4b_proxy_instances/proxy1/docker-compose.yaml'',
                                        ''m4b_proxy_instances/proxy1/.env'',
                                        ''m4b_proxy_instances/proxy2/docker-compose.yaml'']),
      os_listdir = (\<lambda>p. Inr [''proxy1'', ''proxy2'']),
      os_makedirs = (\<lambda>p. Inr ()),
      ask_question_yn = (\<lambda>t q. Inr True),
      subprocess_run = (\<lambda>t cmd. Inr (0, ''started'', [])),
      generate_dashboard_urls = (\<lambda>t f. Inr ()),
      loader_load_json_config = given_document,
      stdout_error = (\<lambda>msg. None),
      logging_basicConfig = (\<lambda>f l. Inr ())\<rparr>"

definition docker_down_env :: env where
  "docker_down_env =
     instances_env\<lparr>subprocess_run := (\<lambda>t cmd. Inr (1, [], ''Cannot connect to the Docker daemon''))\<rparr>"

definition ascii_only :: "frag \<Rightarrow> bool" where
  "ascii_only f =
     (case f of
        Val (PStr s) \<Rightarrow> list_all (\<lambda>c. (of_char c :: nat) < 128) s
      | _ \<Rightarrow> True)"

definition ascii_console_env :: env where
  "ascii_console_env =
     docker_down_env
       \<lparr>stdout_error :=
          (\<lambda>msg. if list_all ascii_only msg then None
                 else Some (UnicodeEncodeError ''ascii''))\<rparr>"

definition cafe :: string where
  "cafe = ''caf'' @ [CHR 0xC3, CHR 0xA9]"

definition no_terminal_env :: env where
  "no_terminal_env =
     instances_env
       \<lparr>os_path_isfile := (\<lambda>p. True),
        ask_question_yn :=
          (\<lambda>t q. if Val (PStr ''proxy1'') \<in> set q
                  then Inl (OtherException ''EOF when reading a line'')
                  else Inr True)\<rparr>"

definition example_args :: args where
  "example_args =
     \<lparr>app_config = ''config/app-config.json'', m4b_config = ''config/m4b-config.json'',
      user_config = ''config/user-config.json'', log_dir = ''./logs'',
      log_file = ''fn_startStack.log'', log_level = ''INFO'', skip_questions = True\<rparr>"

section \<open>Lower and upper case\<close>

text \<open>
  Setting or clearing bit 5 is what the tables of ASCII say: a capital letter's code goes
  up by 32, a small letter's code goes down by 32, every other code stays.
\<close>

lemma lower_char_code:
  "(of_char (lower_char c) :: nat) =
     (if 65 \<le> (of_char c :: nat) \<and> (of_char c :: nat) \<le> 90 then of_char c + 32 else of_char c)"
proof (cases c)
  case (Char b0 b1 b2 b3 b4 b5 b6 b7)
  then show ?thesis
    by (cases b0; cases b1; cases b2; cases b3; cases b4; cases b5; cases b6; cases b7)
       (simp_all add: lower_char_def)
qed

lemma upper_char_code:
  "(of_char (upper_char c) :: nat) =
     (if 97 \<le> (of_char c :: nat) \<and> (of_char c :: nat) \<le> 122 then of_char c - 32 else of_char c)"
proof (cases c)
  case (Char b0 b1 b2 b3 b4 b5 b6 b7)
  then show ?thesis
    by (cases b0; cases b1; cases b2; cases b3; cases b4; cases b5; cases b6; cases b7)
       (simp_all add: upper_char_def)
qed

section \<open>The detector's results\<close>

text \<open>
  C1. When the loaded configuration is a dictionary whose \<open>system\<close> entry is a dictionary
  with a dictionary \<open>os_map\<close>, \<open>detect_os\<close> returns \<open>{os_type: os_map[s]}\<close> for the
  lower-cased host OS name \<open>s\<close> when \<open>s\<close> is a key of \<open>os_map\<close>, and
  \<open>{os_type: "unknown"}\<close> when it is not.
\<close>

theorem detect_os_lookup:
  assumes "load t src = Inr (PDict cfg)"
    and "cfg ''system'' = Some (PDict system)"
    and "system ''os_map'' = Some (PDict os_map)"
  shows "(\<forall>v. os_map (lower (platform_system h)) = Some v \<longrightarrow>
            fst (detect_os load h src t) = Inr [''os_type'' \<mapsto> v]) \<and>
         (os_map (lower (platform_system h)) = None \<longrightarrow>
            fst (detect_os load h src t) = Inr [''os_type'' \<mapsto> PStr ''unknown''])"
  using assms by (simp add: detect_os_def detect_os_try_def py_get_def Let_def)

theorem detect_os_lookup_witness:
  "fst (detect_os given_document linux_host (PDict example_document) []) =
     Inr [''os_type'' \<mapsto> PStr ''lin''] \<and>
   fst (detect_os given_document freebsd_host (PDict example_document) []) =
     Inr [''os_type'' \<mapsto> PStr ''unknown'']"
proof -
  have l: "given_document [] (PDict example_document) = Inr (PDict example_document)"
    by (simp add: given_document_def)
  have s: "example_document ''system'' = Some (PDict example_system)"
    by (simp add: example_document_def)
  have m: "example_system ''os_map'' = Some (PDict example_os_map)"
    by (simp add: example_system_def)
  have a: "example_os_map (lower (platform_system linux_host)) = Some (PStr ''lin'')"
    by (simp add: example_os_map_def linux_host_def lower_def lower_char_def)
  have b: "example_os_map (lower (platform_system freebsd_host)) = None"
    by (simp add: example_os_map_def freebsd_host_def lower_def lower_char_def)
  from detect_os_lookup [where load = given_document and t = "[]"
         and src = "PDict example_document" and cfg = example_document
         and system = example_system and os_map = example_os_map and h = linux_host, OF l s m] a
       detect_os_lookup [where load = given_document and t = "[]"
         and src = "PDict example_document" and cfg = example_document
         and system = example_system and os_map = example_os_map and h = freebsd_host, OF l s m] b
  show ?thesis by blast
qed

text \<open>
  C2. When the loaded configuration is a dictionary whose \<open>system\<close> entry is a dictionary
  with a dictionary \<open>arch_map\<close>, \<open>detect_architecture\<close> returns
  \<open>{arch: a, dkarch: arch_map[a]}\<close> for the lower-cased machine string \<open>a\<close> when \<open>a\<close> is
  a key of \<open>arch_map\<close>; when it is not, \<open>dkarch\<close> is \<open>"unknown"\<close> and \<open>arch\<close> is still \<open>a\<close>.
\<close>

theorem detect_architecture_lookup:
  assumes "load t src = Inr (PDict cfg)"
    and "cfg ''system'' = Some (PDict system)"
    and "system ''arch_map'' = Some (PDict arch_map)"
  shows "(\<forall>v. arch_map (lower (platform_machine h)) = Some v \<longrightarrow>
            fst (detect_architecture load h src t) =
              Inr [''arch'' \<mapsto> PStr (lower (platform_machine h)), ''dkarch'' \<mapsto> v]) \<and>
         (arch_map (lower (platform_machine h)) = None \<longrightarrow>
            fst (detect_architecture load h src t) =
              Inr [''arch'' \<mapsto> PStr (lower (platform_machine h)),
                   ''dkarch'' \<mapsto> PStr ''unknown''])"
  using assms
  by (simp add: detect_architecture_def detect_architecture_try_def py_get_def Let_def)

theorem detect_architecture_lookup_witness:
  "fst (detect_architecture given_document linux_host (PDict example_document) []) =
     Inr [''arch'' \<mapsto> PStr ''x86_64'', ''dkarch'' \<mapsto> PStr ''amd64''] \<and>
   fst (detect_architecture given_document freebsd_host (PDict example_document) []) =
     Inr [''arch'' \<mapsto> PStr ''riscv64'', ''dkarch'' \<mapsto> PStr ''unknown'']"
proof -
  have l: "given_document [] (PDict example_document) = Inr (PDict example_document)"
    by (simp add: given_document_def)
  have s: "example_document ''system'' = Some (PDict example_system)"
    by (simp add: example_document_def)
  have m: "example_system ''arch_map'' = Some (PDict example_arch_map)"
    by (simp add: example_system_def)
  have la: "lower (platform_machine linux_host) = ''x86_64''"
    by (simp add: linux_host_def lower_def lower_char_def)
  have lb: "lower (platform_machine freebsd_host) = ''riscv64''"
    by (simp add: freebsd_host_def lower_def lower_char_def)
  have a: "example_arch_map (lower (platform_machine linux_host)) = Some (PStr ''amd64'')"
    unfolding la by (simp add: example_arch_map_def)
  have b: "example_arch_map (lower (platform_machine freebsd_host)) = None"
    unfolding lb by (simp add: example_arch_map_def)
  from detect_architecture_lookup [where load = given_document and t = "[]"
         and src = "PDict example_document" and cfg = example_document
         and system = example_system and arch_map = example_arch_map and h = linux_host,
         OF l s m] a
       detect_architecture_lookup [where load = given_document and t = "[]"
         and src = "PDict example_document" and cfg = example_document
         and system = example_system and arch_map = example_arch_map and h = freebsd_host,
         OF l s m] b
  show ?thesis unfolding la lb by blast
qed

text \<open>
  C3. When the loaded configuration is a dictionary without the key \<open>system\<close>, both
  \<open>detect_os\<close> and \<open>detect_architecture\<close> raise: \<open>get\<close> on the missing entry (None) is an
  AttributeError, which each function logs and raises again. Neither returns a result.
\<close>

theorem detect_missing_system:
  assumes "load t src = Inr (PDict cfg)"
    and "cfg ''system'' = None"
  shows "detect_os load h src t =
           (Inl (AttributeError ''NoneType'' ''get''),
            t @ [Log DEBUG [Lit ''Detecting OS type''],
                 Log ERROR [Lit ''An error occurred while detecting OS: '',
                            Str_exn (AttributeError ''NoneType'' ''get'')]]) \<and>
         detect_architecture load h src t =
           (Inl (AttributeError ''NoneType'' ''get''),
            t @ [Log DEBUG [Lit ''Detecting system architecture''],
                 Log ERROR [Lit ''An error occurred while detecting architecture: '',
                            Str_exn (AttributeError ''NoneType'' ''get'')]])"
  using assms
  by (simp add: detect_os_def detect_os_try_def detect_architecture_def
        detect_architecture_try_def py_get_def type_name_def Let_def)

theorem detect_missing_system_witness:
  "fst (detect_os given_document linux_host (PDict example_system) []) =
     Inl (AttributeError ''NoneType'' ''get'') \<and>
   fst (detect_architecture given_document linux_host (PDict example_system) []) =
     Inl (AttributeError ''NoneType'' ''get'')"
proof -
  have l: "given_document [] (PDict example_system) = Inr (PDict example_system)"
    by (simp add: given_document_def)
  have s: "example_system ''system'' = None"
    by (simp add: example_system_def)
  from detect_missing_system [where load = given_document and t = "[]"
         and src = "PDict example_system" and cfg = example_system and h = linux_host, OF l s]
  show ?thesis by simp
qed

section \<open>The shape of a launch\<close>

lemma stack_starts_append: "stack_starts (a @ b) = stack_starts a @ stack_starts b"
  by (simp add: stack_starts_def)

lemma launch_events_append: "launch_events (a @ b) = launch_events a @ launch_events b"
  by (simp add: launch_events_def)

lemma stack_starts_launch_events: "stack_starts (launch_events t) = stack_starts t"
  by (induction t) (auto simp add: stack_starts_def launch_events_def is_launch_event_def)

lemma one_at_a_time_launch_events: "one_at_a_time busy (launch_events t) = one_at_a_time busy t"
  by (induction busy t rule: one_at_a_time.induct)
     (auto simp add: launch_events_def is_launch_event_def is_start_def)

lemma one_at_a_time_append:
  "one_at_a_time busy a \<Longrightarrow> one_at_a_time busy (a @ b) = one_at_a_time False b"
  by (induction busy a rule: one_at_a_time.induct) auto

lemma is_start_start_record: "is_start (start_record name cf ef)"
  by (simp add: is_start_def start_record_def)

lemma start_stack_confirm_trace:
  "\<exists>asked. snd (start_stack_confirm env cf ef name skip t) = t @ start_record name cf ef # asked \<and>
           launch_events asked = []"
  by (simp add: start_stack_confirm_def start_record_def Let_def launch_events_def
        is_launch_event_def is_start_def)

lemma start_stack_confirm_skip: "fst (start_stack_confirm env cf ef name True t) = Inr True"
  by (simp add: start_stack_confirm_def Let_def)

lemma start_stack_try_trace:
  "\<exists>outcome rest. snd (start_stack_try env cf ef name t) =
       t @ Subprocess_run (up_command cf ef) # Subprocess_done outcome # rest \<and>
     launch_events rest = []"
  by (auto simp add: start_stack_try_def run_checked_def py_print_def Let_def launch_events_def
        is_launch_event_def is_start_def split: sum.splits prod.splits option.splits)

lemma start_stack_except_trace:
  "\<exists>report. snd (start_stack_except env name e t) = t @ report \<and> launch_events report = []"
  by (cases e)
     (simp_all add: start_stack_except_def py_print_def launch_events_def is_launch_event_def
        is_start_def split: option.splits)

lemma start_stack_canceled_trace:
  "\<exists>rest. snd (case py_print env msg t of
                   (Inl e, t3) \<Rightarrow> (Inl e, t3)
                 | (Inr u, t3) \<Rightarrow> (Inr (), t3 @ [Sleep 2])) = t @ rest \<and>
          launch_events rest = []"
  by (simp add: py_print_def launch_events_def is_launch_event_def is_start_def
        split: option.splits)

lemma launch_events_start_record:
  "launch_events (start_record name cf ef # es) = start_record name cf ef # launch_events es"
  by (simp add: launch_events_def is_launch_event_def is_start_start_record)

lemma launch_events_run:
  "launch_events (Subprocess_run cmd # Subprocess_done outcome # es) =
     Subprocess_run cmd # Subprocess_done outcome # launch_events es"
  by (simp add: launch_events_def is_launch_event_def)

lemma start_stack_shape:
  "\<exists>seg. snd (start_stack env cf ef name skip t) = t @ seg \<and>
         stack_attempt name cf ef skip (launch_events seg)"
proof -
  obtain asked where c: "snd (start_stack_confirm env cf ef name skip t) =
      t @ start_record name cf ef # asked" and ca: "launch_events asked = []"
    using start_stack_confirm_trace by blast
  obtain r t2 where rc: "start_stack_confirm env cf ef name skip t = (r, t2)"
    by (cases "start_stack_confirm env cf ef name skip t")
  with c have t2: "t2 = t @ start_record name cf ef # asked" by simp
  have sk: "skip \<Longrightarrow> r = Inr True"
    using rc by (simp add: start_stack_confirm_def Let_def)
  show ?thesis
  proof (cases r)
    case (Inl e)
    have "snd (start_stack env cf ef name skip t) = t @ start_record name cf ef # asked"
      using Inl rc t2 by (simp add: start_stack_def)
    moreover have "\<not> skip" using sk Inl by auto
    then have "stack_attempt name cf ef skip (launch_events (start_record name cf ef # asked))"
      using ca by (simp add: launch_events_start_record stack_attempt_def)
    ultimately show ?thesis by blast
  next
    case (Inr ok)
    show ?thesis
    proof (cases ok)
      case False
      let ?msg = "[Fore BLUE, Lit (''Docker stack startup for '' @ apos), Val name,
                   Lit ''' instance canceled.'', Style_RESET_ALL]"
      obtain rest where "snd (case py_print env ?msg t2 of
                   (Inl e, t3) \<Rightarrow> (Inl e, t3)
                 | (Inr u, t3) \<Rightarrow> (Inr (), t3 @ [Sleep 2])) = t2 @ rest"
        and cr: "launch_events rest = []"
        using start_stack_canceled_trace by blast
      then have "snd (start_stack env cf ef name skip t) =
              t @ (start_record name cf ef # asked @ rest)"
        using False Inr rc t2 by (simp add: start_stack_def)
      moreover have "\<not> skip" using sk Inr False by auto
      then have "stack_attempt name cf ef skip
            (launch_events (start_record name cf ef # asked @ rest))"
        using ca cr by (simp add: launch_events_start_record launch_events_append stack_attempt_def)
      ultimately show ?thesis by blast
    next
      case True
      obtain outcome rest where tr: "snd (start_stack_try env cf ef name t2) =
          t2 @ Subprocess_run (up_command cf ef) # Subprocess_done outcome # rest"
        and cr: "launch_events rest = []"
        using start_stack_try_trace by blast
      obtain r3 t3 where r3: "start_stack_try env cf ef name t2 = (r3, t3)"
        by (cases "start_stack_try env cf ef name t2")
      with tr have t3: "t3 = t2 @ Subprocess_run (up_command cf ef) # Subprocess_done outcome # rest"
        by simp
      have "\<exists>report. snd (start_stack env cf ef name skip t) = t3 @ report \<and>
              launch_events report = []"
      proof (cases r3)
        case (Inl e)
        obtain report where "snd (start_stack_except env name e t3) = t3 @ report"
          and "launch_events report = []"
          using start_stack_except_trace by blast
        moreover have "snd (start_stack env cf ef name skip t) =
            snd (start_stack_except env name e t3)"
          using Inl True Inr rc r3 by (simp add: start_stack_def)
        ultimately show ?thesis by auto
      next
        case (Inr u)
        have "snd (start_stack env cf ef name skip t) = t3 @ []"
          using Inr True \<open>r = Inr ok\<close> rc r3 by (simp add: start_stack_def)
        moreover have "launch_events [] = []" by (simp add: launch_events_def)
        ultimately show ?thesis by blast
      qed
      then obtain report where rep: "snd (start_stack env cf ef name skip t) = t3 @ report"
        and cp: "launch_events report = []" by blast
      let ?seg = "start_record name cf ef # asked @
          Subprocess_run (up_command cf ef) # Subprocess_done outcome # rest @ report"
      have "snd (start_stack env cf ef name skip t) = t @ ?seg"
        using rep t3 t2 by simp
      moreover have "launch_events ?seg =
          [start_record name cf ef, Subprocess_run (up_command cf ef), Subprocess_done outcome]"
        using ca cr cp
        by (simp add: launch_events_start_record launch_events_append launch_events_run)
      then have "stack_attempt name cf ef skip (launch_events ?seg)"
        by (simp add: stack_attempt_def)
      ultimately show ?thesis by blast
    qed
  qed
qed

lemma start_instance_shape:
  "\<exists>seg. start_instance env d skip i t = t @ seg \<and>
         (if complete env d i then instance_attempt d skip i (launch_events seg)
          else seg = [])"
proof (cases "complete env d i")
  case False
  then have "start_instance env d skip i t = t"
    by (auto simp add: start_instance_def complete_def compose_file_of_def env_file_of_def Let_def)
  with False show ?thesis by simp
next
  case True
  let ?cf = "compose_file_of d i" and ?ef = "env_file_of d i"
  obtain seg where s: "snd (start_stack env ?cf ?ef (PStr i) skip t) = t @ seg"
    and a: "stack_attempt (PStr i) ?cf ?ef skip (launch_events seg)"
    using start_stack_shape by blast
  obtain r t' where r: "start_stack env ?cf ?ef (PStr i) skip t = (r, t')"
    by (cases "start_stack env ?cf ?ef (PStr i) skip t")
  with s have t': "t' = t @ seg" by simp
  have "\<exists>logged. start_instance env d skip i t = t' @ logged \<and> launch_events logged = []"
  proof (cases r)
    case (Inl e)
    have "start_instance env d skip i t =
        t' @ [Log ERROR [Lit (''Failed to start instance '' @ apos), Val (PStr i),
                         Lit ''': '', Str_exn e]]"
      using True r Inl
      by (simp add: start_instance_def complete_def compose_file_of_def env_file_of_def Let_def)
    moreover have "launch_events [Log ERROR [Lit (''Failed to start instance '' @ apos),
        Val (PStr i), Lit ''': '', Str_exn e]] = []"
      by (simp add: launch_events_def is_launch_event_def is_start_def)
    ultimately show ?thesis by blast
  next
    case (Inr u)
    have "start_instance env d skip i t = t' @ []"
      using True r Inr
      by (simp add: start_instance_def complete_def compose_file_of_def env_file_of_def Let_def)
    moreover have "launch_events [] = []" by (simp add: launch_events_def)
    ultimately show ?thesis by blast
  qed
  then obtain logged where l: "start_instance env d skip i t = t' @ logged"
    and cl: "launch_events logged = []" by blast
  have "start_instance env d skip i t = t @ (seg @ logged)" using l t' by simp
  moreover have "instance_attempt d skip i (launch_events (seg @ logged))"
    using a cl by (simp add: instance_attempt_def launch_events_append)
  ultimately show ?thesis using True by auto
qed

lemma start_instances_shape:
  "\<exists>seg segs. start_instances env d skip entries t = t @ seg \<and>
     launch_events seg = concat segs \<and>
     list_all2 (instance_attempt d skip) (filter (complete env d) entries) segs"
proof (induction entries arbitrary: t)
  case Nil
  have "start_instances env d skip [] t = t @ [] \<and> launch_events [] = concat [] \<and>
      list_all2 (instance_attempt d skip) (filter (complete env d) []) []"
    by (simp add: launch_events_def)
  then show ?case by blast
next
  case (Cons i entries)
  obtain s1 where s1: "start_instance env d skip i t = t @ s1"
    and a1: "if complete env d i then instance_attempt d skip i (launch_events s1) else s1 = []"
    using start_instance_shape by blast
  obtain seg segs where s2: "start_instances env d skip entries (t @ s1) = (t @ s1) @ seg"
    and c2: "launch_events seg = concat segs"
    and l2: "list_all2 (instance_attempt d skip) (filter (complete env d) entries) segs"
    using Cons.IH by blast
  have eq: "start_instances env d skip (i # entries) t = t @ (s1 @ seg)"
    using s1 s2 by simp
  show ?case
  proof (cases "complete env d i")
    case True
    with a1 have "instance_attempt d skip i (launch_events s1)" by simp
    with l2 True have "list_all2 (instance_attempt d skip)
        (filter (complete env d) (i # entries)) (launch_events s1 # segs)" by simp
    moreover have "launch_events (s1 @ seg) = concat (launch_events s1 # segs)"
      using c2 by (simp add: launch_events_append)
    ultimately show ?thesis using eq by blast
  next
    case False
    with a1 have "s1 = []" by simp
    with l2 False c2 eq show ?thesis by auto
  qed
qed

lemma stack_starts_Print: "stack_starts (Print a # es) = stack_starts es"
  by (simp add: stack_starts_def is_start_def)

lemma launch_events_Print: "launch_events (Print a # es) = launch_events es"
  by (simp add: launch_events_def is_launch_event_def is_start_def)

lemma not_start_process:
  "\<not> is_start (Subprocess_run cmd)" "\<not> is_start (Subprocess_done outcome)"
  by (simp_all add: is_start_def)

lemma stack_attempt_cases:
  "stack_attempt name cf ef skip seg \<Longrightarrow>
     seg = [start_record name cf ef] \<or>
     (\<exists>outcome. seg = [start_record name cf ef, Subprocess_run (up_command cf ef),
                      Subprocess_done outcome])"
  unfolding stack_attempt_def
  by (simp split: list.splits event.splits)

lemma stack_starts_attempt:
  "stack_attempt name cf ef skip seg \<Longrightarrow> stack_starts seg = [start_record name cf ef]"
proof -
  assume "stack_attempt name cf ef skip seg"
  then consider "seg = [start_record name cf ef]"
    | outcome where "seg = [start_record name cf ef, Subprocess_run (up_command cf ef),
                            Subprocess_done outcome]"
    using stack_attempt_cases by blast
  then show ?thesis
  proof cases
    case 1
    then show ?thesis by (simp add: stack_starts_def is_start_start_record)
  next
    case 2
    then show ?thesis by (simp add: stack_starts_def is_start_start_record not_start_process)
  qed
qed

lemma one_at_a_time_attempt:
  "stack_attempt name cf ef skip seg \<Longrightarrow> one_at_a_time False seg"
proof -
  assume "stack_attempt name cf ef skip seg"
  then consider "seg = [start_record name cf ef]"
    | outcome where "seg = [start_record name cf ef, Subprocess_run (up_command cf ef),
                            Subprocess_done outcome]"
    using stack_attempt_cases by blast
  then show ?thesis
  proof cases
    case 1
    then show ?thesis by (simp add: start_record_def)
  next
    case 2
    then show ?thesis by (simp add: start_record_def)
  qed
qed

lemma attempts_starts:
  "list_all2 (instance_attempt d skip) ins segs \<Longrightarrow>
     stack_starts (concat segs) = map (instance_start d) ins"
proof (induction rule: list_all2_induct)
  case Nil
  then show ?case by (simp add: stack_starts_def)
next
  case (Cons i ins seg segs)
  from Cons.hyps(1) have "stack_starts seg = [instance_start d i]"
    by (simp add: instance_attempt_def instance_start_def stack_starts_attempt)
  with Cons.IH show ?case by (simp add: stack_starts_append)
qed

lemma attempts_one_at_a_time:
  "list_all2 (instance_attempt d skip) ins segs \<Longrightarrow> one_at_a_time False (concat segs)"
proof (induction rule: list_all2_induct)
  case Nil
  then show ?case by simp
next
  case (Cons i ins seg segs)
  from Cons.hyps(1) have "one_at_a_time False seg"
    by (simp add: instance_attempt_def one_at_a_time_attempt)
  with Cons.IH show ?case by (simp add: one_at_a_time_append)
qed

lemma stack_starts_Nil: "stack_starts [] = []"
  by (simp add: stack_starts_def)

lemma launch_events_Nil: "launch_events [] = []"
  by (simp add: launch_events_def)

lemma start_stack_starts:
  "stack_starts (snd (start_stack env cf ef name skip t)) =
     stack_starts t @ [start_record name cf ef]"
proof -
  obtain seg where s: "snd (start_stack env cf ef name skip t) = t @ seg"
    and a: "stack_attempt name cf ef skip (launch_events seg)"
    using start_stack_shape by blast
  have "stack_starts seg = stack_starts (launch_events seg)"
    by (simp add: stack_starts_launch_events)
  with a have "stack_starts seg = [start_record name cf ef]"
    by (simp add: stack_starts_attempt)
  with s show ?thesis by (simp add: stack_starts_append)
qed

lemma start_instances_append:
  "start_instances env d skip (xs @ ys) t =
     start_instances env d skip ys (start_instances env d skip xs t)"
  by (induction xs arbitrary: t) simp_all

lemma start_instances_starts:
  "stack_starts (start_instances env d skip entries t) =
     stack_starts t @ map (instance_start d) (filter (complete env d) entries)"
proof -
  obtain seg segs where s: "start_instances env d skip entries t = t @ seg"
    and c: "launch_events seg = concat segs"
    and l: "list_all2 (instance_attempt d skip) (filter (complete env d) entries) segs"
    using start_instances_shape by blast
  have "stack_starts seg = stack_starts (concat segs)"
    using c stack_starts_launch_events [of seg] by simp
  then have "stack_starts seg = map (instance_start d) (filter (complete env d) entries)"
    using l by (simp add: attempts_starts)
  with s show ?thesis by (simp add: stack_starts_append)
qed

lemma start_instances_extends: "\<exists>seg. start_instances env d skip entries t = t @ seg"
  using start_instances_shape by blast

lemma stack_attempt_skip:
  "stack_attempt name cf ef True seg \<Longrightarrow>
     \<exists>outcome. seg = [start_record name cf ef, Subprocess_run (up_command cf ef),
                      Subprocess_done outcome]"
  unfolding stack_attempt_def
  by (simp split: list.splits event.splits)

section \<open>The launcher's behaviour\<close>

text \<open>
  C4, as the code has it. Once the confirmation is given or skipped, take a launch that
  raises: the orchestration command exits with a code other than 0 (CalledProcessError),
  or any other exception comes out of the \<^verbatim>\<open>try\<close>. The handler prints the failure to the
  operator in red. When that print succeeds, \<open>start_stack\<close> logs the error (the command's
  error output, or "Unexpected error: ..."), pauses and returns normally. When that print
  raises, its exception leaves \<open>start_stack\<close> and nothing is logged. A launch that does not
  raise returns normally.
\<close>

theorem start_stack_reports_launch_failures:
  assumes "start_stack_confirm env cf ef name skip t = (Inr True, t2)"
  shows "(\<forall>rc out err t3.
            start_stack_try env cf ef name t2 = (Inl (CalledProcessError rc out err), t3) \<longrightarrow>
            start_stack env cf ef name skip t =
              (let line = [Fore RED, Lit (''Error starting Docker stack for '' @ apos), Val name,
                           Lit ''' instance. Please check that docker is running and that the configuration is complete then try again.'',
                           Style_RESET_ALL]
               in case stdout_error env line of
                    None \<Rightarrow> (Inr (), t3 @ [Print line, Log ERROR [Val (PStr err)], Sleep 2])
                  | Some e' \<Rightarrow> (Inl e', t3))) \<and>
         (\<forall>e t3.
            start_stack_try env cf ef name t2 = (Inl e, t3) \<and>
            (\<forall>rc out err. e \<noteq> CalledProcessError rc out err) \<longrightarrow>
            start_stack env cf ef name skip t =
              (let line = [Fore RED,
                           Lit (''An unexpected error occurred while starting the stack for '' @ apos),
                           Val name, Lit ''' instance.'', Style_RESET_ALL]
               in case stdout_error env line of
                    None \<Rightarrow>
                      (Inr (),
                       t3 @ [Print line, Log ERROR [Lit ''Unexpected error: '', Str_exn e], Sleep 2])
                  | Some e' \<Rightarrow> (Inl e', t3))) \<and>
         (\<forall>t3. start_stack_try env cf ef name t2 = (Inr (), t3) \<longrightarrow>
            start_stack env cf ef name skip t = (Inr (), t3)) \<and>
         (\<forall>rc out err.
            subprocess_run env (t2 @ [Subprocess_run (up_command cf ef)]) (up_command cf ef) =
              Inr (rc, out, err) \<and> rc \<noteq> 0 \<longrightarrow>
            fst (start_stack_try env cf ef name t2) = Inl (CalledProcessError rc out err)) \<and>
         (\<forall>e.
            subprocess_run env (t2 @ [Subprocess_run (up_command cf ef)]) (up_command cf ef) =
              Inl e \<longrightarrow>
            fst (start_stack_try env cf ef name t2) = Inl e)"
proof (intro conjI allI impI)
  fix rc out err t3
  assume "start_stack_try env cf ef name t2 = (Inl (CalledProcessError rc out err), t3)"
  then show "start_stack env cf ef name skip t =
      (let line = [Fore RED, Lit (''Error starting Docker stack for '' @ apos), Val name,
                   Lit ''' instance. Please check that docker is running and that the configuration is complete then try again.'',
                   Style_RESET_ALL]
       in case stdout_error env line of
            None \<Rightarrow> (Inr (), t3 @ [Print line, Log ERROR [Val (PStr err)], Sleep 2])
          | Some e' \<Rightarrow> (Inl e', t3))"
    using assms
    by (simp add: start_stack_def start_stack_except_def py_print_def Let_def split: option.splits)
next
  fix e t3
  assume a: "start_stack_try env cf ef name t2 = (Inl e, t3) \<and>
      (\<forall>rc out err. e \<noteq> CalledProcessError rc out err)"
  then have "start_stack env cf ef name skip t = start_stack_except env name e t3"
    using assms by (simp add: start_stack_def)
  moreover have "start_stack_except env name e t3 =
      (let line = [Fore RED,
                   Lit (''An unexpected error occurred while starting the stack for '' @ apos),
                   Val name, Lit ''' instance.'', Style_RESET_ALL]
       in case stdout_error env line of
            None \<Rightarrow>
              (Inr (),
               t3 @ [Print line, Log ERROR [Lit ''Unexpected error: '', Str_exn e], Sleep 2])
          | Some e' \<Rightarrow> (Inl e', t3))"
    using a
    by (cases e)
       (simp_all add: start_stack_except_def py_print_def Let_def split: option.splits)
  ultimately show "start_stack env cf ef name skip t =
      (let line = [Fore RED,
                   Lit (''An unexpected error occurred while starting the stack for '' @ apos),
                   Val name, Lit ''' instance.'', Style_RESET_ALL]
       in case stdout_error env line of
            None \<Rightarrow>
              (Inr (),
               t3 @ [Print line, Log ERROR [Lit ''Unexpected error: '', Str_exn e], Sleep 2])
          | Some e' \<Rightarrow> (Inl e', t3))"
    by simp
next
  fix t3
  assume "start_stack_try env cf ef name t2 = (Inr (), t3)"
  then show "start_stack env cf ef name skip t = (Inr (), t3)"
    using assms by (simp add: start_stack_def)
next
  fix rc out err
  assume "subprocess_run env (t2 @ [Subprocess_run (up_command cf ef)]) (up_command cf ef) =
      Inr (rc, out, err) \<and> rc \<noteq> 0"
  then show "fst (start_stack_try env cf ef name t2) = Inl (CalledProcessError rc out err)"
    by (simp add: start_stack_try_def run_checked_def Let_def)
next
  fix e
  assume "subprocess_run env (t2 @ [Subprocess_run (up_command cf ef)]) (up_command cf ef) = Inl e"
  then show "fst (start_stack_try env cf ef name t2) = Inl e"
    by (simp add: start_stack_try_def run_checked_def Let_def)
qed

theorem start_stack_reports_launch_failures_witness:
  "start_stack docker_down_env ''./docker-compose.yaml'' ''./.env'' (PStr ''money4band'') True [] =
     (Inr (),
      [start_record (PStr ''money4band'') ''./docker-compose.yaml'' ''./.env'', Fix_console,
       Subprocess_run (up_command ''./docker-compose.yaml'' ''./.env''),
       Subprocess_done (Inr (1, [], ''Cannot connect to the Docker daemon'')),
       Print [Fore RED, Lit (''Error starting Docker stack for '' @ apos), Val (PStr ''money4band''),
              Lit ''' instance. Please check that docker is running and that the configuration is complete then try again.'',
              Style_RESET_ALL],
       Log ERROR [Val (PStr ''Cannot connect to the Docker daemon'')],
       Sleep 2])"
proof -
  let ?cf = "''./docker-compose.yaml''" and ?ef = "''./.env''" and ?name = "PStr ''money4band''"
  let ?t2 = "[start_record ?name ?cf ?ef, Fix_console]"
  let ?t3 = "[start_record ?name ?cf ?ef, Fix_console, Subprocess_run (up_command ?cf ?ef),
              Subprocess_done (Inr (1, [], ''Cannot connect to the Docker daemon''))]"
  have c: "start_stack_confirm docker_down_env ?cf ?ef ?name True [] = (Inr True, ?t2)"
    by (simp add: start_stack_confirm_def start_record_def Let_def)
  have tr: "start_stack_try docker_down_env ?cf ?ef ?name ?t2 =
      (Inl (CalledProcessError 1 [] ''Cannot connect to the Docker daemon''), ?t3)"
    by (simp add: start_stack_try_def run_checked_def Let_def docker_down_env_def
          instances_env_def)
  have p: "stdout_error docker_down_env msg = None" for msg
    by (simp add: docker_down_env_def instances_env_def)
  from start_stack_reports_launch_failures [OF c] tr
  have "start_stack docker_down_env ?cf ?ef ?name True [] =
      (let line = [Fore RED, Lit (''Error starting Docker stack for '' @ apos), Val ?name,
                   Lit ''' instance. Please check that docker is running and that the configuration is complete then try again.'',
                   Style_RESET_ALL]
       in case stdout_error docker_down_env line of
            None \<Rightarrow>
              (Inr (), ?t3 @ [Print line, Log ERROR [Val (PStr ''Cannot connect to the Docker daemon'')],
                            Sleep 2])
          | Some e' \<Rightarrow> (Inl e', ?t3))"
    by blast
  then show ?thesis by (simp add: p Let_def)
qed

text \<open>
  The claim as it was stated does not hold: on a console that writes ASCII only, with the
  questions skipped, an instance named \<open>caf\<close> and e acute and the orchestration command
  exiting with code 1, \<open>start_stack\<close> raises UnicodeEncodeError to its caller, and the trace
  ends with the return of the process: nothing was printed and nothing logged.
\<close>

theorem start_stack_raises_from_its_handler:
  "start_stack_confirm ascii_console_env ''./docker-compose.yaml'' ''./.env'' (PStr cafe) True [] =
     (Inr True, [start_record (PStr cafe) ''./docker-compose.yaml'' ''./.env'', Fix_console]) \<and>
   fst (start_stack_try ascii_console_env ''./docker-compose.yaml'' ''./.env'' (PStr cafe)
          [start_record (PStr cafe) ''./docker-compose.yaml'' ''./.env'', Fix_console]) =
     Inl (CalledProcessError 1 [] ''Cannot connect to the Docker daemon'') \<and>
   start_stack ascii_console_env ''./docker-compose.yaml'' ''./.env'' (PStr cafe) True [] =
     (Inl (UnicodeEncodeError ''ascii''),
      [start_record (PStr cafe) ''./docker-compose.yaml'' ''./.env'', Fix_console,
       Subprocess_run (up_command ''./docker-compose.yaml'' ''./.env''),
       Subprocess_done (Inr (1, [], ''Cannot connect to the Docker daemon''))])"
proof -
  have ne: "\<not> list_all ascii_only [Fore RED, Lit (''Error starting Docker stack for '' @ apos),
      Val (PStr cafe),
      Lit ''' instance. Please check that docker is running and that the configuration is complete then try again.'',
      Style_RESET_ALL]"
    by (simp add: ascii_only_def cafe_def)
  have c: "start_stack_confirm ascii_console_env ''./docker-compose.yaml'' ''./.env'' (PStr cafe)
      True [] = (Inr True, [start_record (PStr cafe) ''./docker-compose.yaml'' ''./.env'', Fix_console])"
    by (simp add: start_stack_confirm_def start_record_def Let_def)
  have tr: "start_stack_try ascii_console_env ''./docker-compose.yaml'' ''./.env'' (PStr cafe)
      [start_record (PStr cafe) ''./docker-compose.yaml'' ''./.env'', Fix_console] =
      (Inl (CalledProcessError 1 [] ''Cannot connect to the Docker daemon''),
       [start_record (PStr cafe) ''./docker-compose.yaml'' ''./.env'', Fix_console,
        Subprocess_run (up_command ''./docker-compose.yaml'' ''./.env''),
        Subprocess_done (Inr (1, [], ''Cannot connect to the Docker daemon''))])"
    by (simp add: start_stack_try_def run_checked_def Let_def ascii_console_env_def
          docker_down_env_def instances_env_def)
  have ex: "start_stack_except ascii_console_env (PStr cafe)
      (CalledProcessError 1 [] ''Cannot connect to the Docker daemon'') t3 =
      (Inl (UnicodeEncodeError ''ascii''), t3)" for t3
    using ne
    by (simp add: start_stack_except_def py_print_def ascii_console_env_def docker_down_env_def
          instances_env_def)
  from c tr ex show ?thesis by (simp add: start_stack_def)
qed

text \<open>
  C7. When \<open>instances_dir\<close> is not an existing directory, \<open>start_multi_proxy_instances\<close>
  returns normally, and all it does is log one warning: no stack is started and no
  process is run.
\<close>

theorem missing_directory_only_warns:
  assumes "\<not> os_path_isdir env d"
  shows "start_multi_proxy_instances env d skip t =
           (Inr (),
            t @ [Log WARNING [Lit (''Multi-proxy instances directory '' @ apos), Val (PStr d),
                              Lit ''' does not exist.'']]) \<and>
         launch_events (snd (start_multi_proxy_instances env d skip t)) = launch_events t"
  using assms
  by (simp add: start_multi_proxy_instances_def launch_events_def is_launch_event_def
        is_start_def)

theorem missing_directory_only_warns_witness:
  "start_multi_proxy_instances instances_env ''elsewhere'' True [] =
     (Inr (),
      [Log WARNING [Lit (''Multi-proxy instances directory '' @ apos), Val (PStr ''elsewhere''),
                    Lit ''' does not exist.'']])"
proof -
  have "\<not> os_path_isdir instances_env ''elsewhere''"
    by (simp add: instances_env_def)
  from missing_directory_only_warns [OF this, of True "[]"] show ?thesis by simp
qed

lemma start_instance_call:
  "start_instance env d skip i t = (if complete env d i then call_start_stack env d skip t i else t)"
  by (simp add: start_instance_def call_start_stack_def complete_def compose_file_of_def
        env_file_of_def Let_def)

lemma start_instances_calls:
  "start_instances env d skip entries t =
     foldl (call_start_stack env d skip) t (filter (complete env d) entries)"
  by (induction entries arbitrary: t) (simp_all add: start_instance_call)

text \<open>
  C5. For an existing instances directory with listing \<open>entries\<close>,
  \<open>start_multi_proxy_instances\<close> returns normally, and what it does between its two
  prints is to call \<open>start_stack\<close> once for each entry that has both a
  \<open>docker-compose.yaml\<close> and a \<open>.env\<close> file, in the order of the listing, each call on that
  entry's two files and name and starting where the call before ended; an entry missing
  either file adds nothing. So the calls seen in the trace are those of the complete
  entries, one each, and each shows its start record and, unless the operator declined
  or the question failed, the start and the return of its own command. With two entries
  of which one lacks its env file, the run is one call of \<open>start_stack\<close>, which runs one
  command.
\<close>

theorem starts_exactly_the_complete_instances:
  assumes "os_path_isdir env d"
    and "os_listdir env d = Inr entries"
  shows "start_multi_proxy_instances env d skip t =
           (Inr (),
            foldl (call_start_stack env d skip)
              (t @ [Print [Fore YELLOW, Lit ''Starting multi-proxy instances...'', Style_RESET_ALL]])
              (filter (complete env d) entries) @
            [Print [Fore GREEN, Lit ''All multi-proxy instances started successfully.'',
                    Style_RESET_ALL]]) \<and>
         stack_starts (snd (start_multi_proxy_instances env d skip t)) =
           stack_starts t @ map (instance_start d) (filter (complete env d) entries) \<and>
         (\<exists>segs. launch_events (snd (start_multi_proxy_instances env d skip t)) =
                   launch_events t @ concat segs \<and>
                 list_all2 (instance_attempt d skip) (filter (complete env d) entries) segs)"
proof -
  let ?t1 = "t @ [Print [Fore YELLOW, Lit ''Starting multi-proxy instances...'', Style_RESET_ALL]]"
  let ?done = "[Print [Fore GREEN, Lit ''All multi-proxy instances started successfully.'',
                       Style_RESET_ALL]]"
  have r: "start_multi_proxy_instances env d skip t =
      (Inr (), start_instances env d skip entries ?t1 @ ?done)"
    using assms by (simp add: start_multi_proxy_instances_def Let_def)
  then have "start_multi_proxy_instances env d skip t =
      (Inr (), foldl (call_start_stack env d skip) ?t1 (filter (complete env d) entries) @ ?done)"
    by (simp add: start_instances_calls)
  moreover have "stack_starts (snd (start_multi_proxy_instances env d skip t)) =
      stack_starts t @ map (instance_start d) (filter (complete env d) entries)"
    using r
    by (simp add: stack_starts_append start_instances_starts stack_starts_Print stack_starts_Nil)
  moreover have "\<exists>segs. launch_events (snd (start_multi_proxy_instances env d skip t)) =
                   launch_events t @ concat segs \<and>
                 list_all2 (instance_attempt d skip) (filter (complete env d) entries) segs"
  proof -
    obtain seg segs where s: "start_instances env d skip entries ?t1 = ?t1 @ seg"
      and c: "launch_events seg = concat segs"
      and l: "list_all2 (instance_attempt d skip) (filter (complete env d) entries) segs"
      using start_instances_shape by blast
    have "launch_events (snd (start_multi_proxy_instances env d skip t)) =
        launch_events t @ concat segs"
      using r s c
      by (simp add: launch_events_append launch_events_Print launch_events_Nil)
    with l show ?thesis by blast
  qed
  ultimately show ?thesis by blast
qed

theorem starts_exactly_the_complete_instances_witness:
  "start_multi_proxy_instances instances_env ''m4b_proxy_instances'' True [] =
     (Inr (),
      snd (start_stack instances_env ''m4b_proxy_instances/proxy1/docker-compose.yaml''
             ''m4b_proxy_instances/proxy1/.env'' (PStr ''proxy1'') True
             [Print [Fore YELLOW, Lit ''Starting multi-proxy instances...'', Style_RESET_ALL]]) @
      [Print [Fore GREEN, Lit ''All multi-proxy instances started successfully.'',
              Style_RESET_ALL]]) \<and>
   launch_events (snd (start_multi_proxy_instances instances_env ''m4b_proxy_instances'' True [])) =
     [start_record (PStr ''proxy1'') ''m4b_proxy_instances/proxy1/docker-compose.yaml''
        ''m4b_proxy_instances/proxy1/.env'',
      Subprocess_run (up_command ''m4b_proxy_instances/proxy1/docker-compose.yaml''
                        ''m4b_proxy_instances/proxy1/.env''),
      Subprocess_done (Inr (0, ''started'', []))]"
proof -
  let ?d = "''m4b_proxy_instances''"
  let ?cf = "''m4b_proxy_instances/proxy1/docker-compose.yaml''"
  let ?ef = "''m4b_proxy_instances/proxy1/.env''"
  let ?t1 = "[Print [Fore YELLOW, Lit ''Starting multi-proxy instances...'', Style_RESET_ALL]]"
  let ?done = "[Print [Fore GREEN, Lit ''All multi-proxy instances started successfully.'',
                       Style_RESET_ALL]]"
  have d: "os_path_isdir instances_env ?d"
    by (simp add: instances_env_def)
  have l: "os_listdir instances_env ?d = Inr [''proxy1'', ''proxy2'']"
    by (simp add: instances_env_def)
  have cf: "compose_file_of ?d ''proxy1'' = ?cf" and ef: "env_file_of ?d ''proxy1'' = ?ef"
    by (simp_all add: compose_file_of_def env_file_of_def os_path_join_def)
  have f: "filter (complete instances_env ?d) [''proxy1'', ''proxy2''] = [''proxy1'']"
    by (simp add: complete_def compose_file_of_def env_file_of_def os_path_join_def
          instances_env_def)
  have call: "start_stack instances_env ?cf ?ef (PStr ''proxy1'') True ?t1 =
      (Inr (),
       ?t1 @ [start_record (PStr ''proxy1'') ?cf ?ef, Fix_console,
              Subprocess_run (up_command ?cf ?ef), Subprocess_done (Inr (0, ''started'', [])),
              Print [Fore GREEN, Lit (''All Apps for '' @ apos), Val (PStr ''proxy1''),
                     Lit ''' instance started successfully.'', Style_RESET_ALL],
              Sleep 2, Log INFO [Val (PStr ''started'')], Dashboard_urls ?ef,
              Print [Fore YELLOW,
                     Lit ''Use the previously generated apps nodes URLs to add your device in any apps dashboard that require node claiming/registration (e.g., Earnapp, ProxyRack, etc.)'',
                     Style_RESET_ALL],
              Sleep 2])"
    by (simp add: start_stack_def start_stack_confirm_def start_stack_try_def run_checked_def
          py_print_def start_record_def Let_def instances_env_def)
  have w: "start_multi_proxy_instances instances_env ?d True [] =
      (Inr (), foldl (call_start_stack instances_env ?d True) ?t1 [''proxy1''] @ ?done)"
    using starts_exactly_the_complete_instances [OF d l, of True "[]"] f by simp
  have "foldl (call_start_stack instances_env ?d True) ?t1 [''proxy1''] =
      snd (start_stack instances_env ?cf ?ef (PStr ''proxy1'') True ?t1)"
    using call by (simp add: call_start_stack_def cf ef)
  with w have w1: "start_multi_proxy_instances instances_env ?d True [] =
      (Inr (), snd (start_stack instances_env ?cf ?ef (PStr ''proxy1'') True ?t1) @ ?done)"
    by simp
  have "launch_events (snd (start_stack instances_env ?cf ?ef (PStr ''proxy1'') True ?t1) @ ?done) =
      [start_record (PStr ''proxy1'') ?cf ?ef, Subprocess_run (up_command ?cf ?ef),
       Subprocess_done (Inr (0, ''started'', []))]"
    unfolding call
    by (simp add: launch_events_def is_launch_event_def is_start_def start_record_def)
  with w1 show ?thesis by simp
qed

text \<open>
  C6. Take the loop of \<open>start_multi_proxy_instances\<close> at any complete entry \<open>instance\<close> of
  the listing, with \<open>before\<close> the entries already handled and \<open>rest\<close> those to come, and let
  \<open>start_stack\<close> for that entry end in any way \<open>r\<close>, leaving the trace \<open>t'\<close>. Then the function
  still returns normally and a call of \<open>start_stack\<close> is made for every complete entry of
  \<open>rest\<close>; and when \<open>r\<close> is a raised exception \<open>e\<close>, the record "Failed to start instance ..."
  with \<open>e\<close> is logged before the loop goes on with \<open>rest\<close>.
\<close>

theorem a_failed_start_does_not_stop_the_rest:
  assumes "os_path_isdir env d"
    and "os_listdir env d = Inr (before @ instance # rest)"
    and "complete env d instance"
    and "start_stack env (compose_file_of d instance) (env_file_of d instance) (PStr instance) skip
           (start_instances env d skip before
              (t @ [Print [Fore YELLOW, Lit ''Starting multi-proxy instances...'',
                           Style_RESET_ALL]])) = (r, t')"
  shows "fst (start_multi_proxy_instances env d skip t) = Inr () \<and>
         stack_starts (snd (start_multi_proxy_instances env d skip t)) =
           stack_starts t' @ map (instance_start d) (filter (complete env d) rest) \<and>
         (\<forall>e. r = Inl e \<longrightarrow>
            snd (start_multi_proxy_instances env d skip t) =
              start_instances env d skip rest
                (t' @ [Log ERROR [Lit (''Failed to start instance '' @ apos), Val (PStr instance),
                                  Lit ''': '', Str_exn e]]) @
              [Print [Fore GREEN, Lit ''All multi-proxy instances started successfully.'',
                      Style_RESET_ALL]])"
proof -
  let ?t1 = "t @ [Print [Fore YELLOW, Lit ''Starting multi-proxy instances...'', Style_RESET_ALL]]"
  let ?ti = "start_instances env d skip before ?t1"
  let ?done = "[Print [Fore GREEN, Lit ''All multi-proxy instances started successfully.'',
                       Style_RESET_ALL]]"
  let ?failed = "\<lambda>e. Log ERROR [Lit (''Failed to start instance '' @ apos), Val (PStr instance),
                                 Lit ''': '', Str_exn e]"
  have m: "start_multi_proxy_instances env d skip t =
      (Inr (), start_instances env d skip rest (start_instance env d skip instance ?ti) @ ?done)"
    using assms(1,2) by (simp add: start_multi_proxy_instances_def Let_def start_instances_append)
  have i: "start_instance env d skip instance ?ti =
      (case r of Inl e \<Rightarrow> t' @ [?failed e] | Inr u \<Rightarrow> t')"
    using assms(3,4)
    by (simp add: start_instance_def complete_def compose_file_of_def env_file_of_def Let_def)
  have "stack_starts [?failed e] = []" for e
    by (simp add: stack_starts_def is_start_def)
  then have "stack_starts (start_instance env d skip instance ?ti) = stack_starts t'"
    using i by (cases r) (simp_all add: stack_starts_append)
  then have "stack_starts (snd (start_multi_proxy_instances env d skip t)) =
      stack_starts t' @ map (instance_start d) (filter (complete env d) rest)"
    using m by (simp add: stack_starts_append start_instances_starts stack_starts_Print
          stack_starts_Nil)
  moreover have "\<forall>e. r = Inl e \<longrightarrow> snd (start_multi_proxy_instances env d skip t) =
      start_instances env d skip rest (t' @ [?failed e]) @ ?done"
    using m i by simp
  ultimately show ?thesis using m by simp
qed

theorem a_failed_start_does_not_stop_the_rest_witness:
  "fst (start_multi_proxy_instances no_terminal_env ''m4b_proxy_instances'' False []) = Inr () \<and>
   stack_starts (snd (start_multi_proxy_instances no_terminal_env ''m4b_proxy_instances'' False [])) =
     [instance_start ''m4b_proxy_instances'' ''proxy1'',
      instance_start ''m4b_proxy_instances'' ''proxy2''] \<and>
   Log ERROR [Lit (''Failed to start instance '' @ apos), Val (PStr ''proxy1''), Lit ''': '',
              Str_exn (OtherException ''EOF when reading a line'')]
     \<in> set (snd (start_multi_proxy_instances no_terminal_env ''m4b_proxy_instances'' False []))"
proof -
  let ?d = "''m4b_proxy_instances''"
  let ?t1 = "[] @ [Print [Fore YELLOW, Lit ''Starting multi-proxy instances...'', Style_RESET_ALL]]"
  let ?ti = "start_instances no_terminal_env ?d False [] ?t1"
  let ?call = "start_stack no_terminal_env (compose_file_of ?d ''proxy1'')
      (env_file_of ?d ''proxy1'') (PStr ''proxy1'') False ?ti"
  let ?e = "OtherException ''EOF when reading a line''"
  let ?failed = "Log ERROR [Lit (''Failed to start instance '' @ apos), Val (PStr ''proxy1''),
      Lit ''': '', Str_exn ?e]"
  have dir: "os_path_isdir no_terminal_env ?d"
    by (simp add: no_terminal_env_def instances_env_def)
  have ls: "os_listdir no_terminal_env ?d = Inr ([] @ ''proxy1'' # [''proxy2''])"
    by (simp add: no_terminal_env_def instances_env_def)
  have c1: "complete no_terminal_env ?d ''proxy1''"
    by (simp add: complete_def no_terminal_env_def instances_env_def)
  have c2: "complete no_terminal_env ?d ''proxy2''"
    by (simp add: complete_def no_terminal_env_def instances_env_def)
  have "fst ?call = Inl ?e"
    by (simp add: start_stack_def start_stack_confirm_def Let_def no_terminal_env_def
          instances_env_def)
  then have call: "?call = (Inl ?e, snd ?call)"
    by (metis prod.collapse)
  have st: "stack_starts (snd ?call) = [instance_start ?d ''proxy1'']"
    by (simp add: start_stack_starts instance_start_def stack_starts_Print stack_starts_Nil)
  note w = a_failed_start_does_not_stop_the_rest [OF dir ls c1 call]
  from w have w1: "fst (start_multi_proxy_instances no_terminal_env ?d False []) = Inr ()"
    by blast
  from w have "stack_starts (snd (start_multi_proxy_instances no_terminal_env ?d False [])) =
      stack_starts (snd ?call) @
      map (instance_start ?d) (filter (complete no_terminal_env ?d) [''proxy2''])"
    by blast
  with st c2 have w2: "stack_starts
      (snd (start_multi_proxy_instances no_terminal_env ?d False [])) =
      [instance_start ?d ''proxy1'', instance_start ?d ''proxy2'']"
    by simp
  from w have w3: "snd (start_multi_proxy_instances no_terminal_env ?d False []) =
      start_instances no_terminal_env ?d False [''proxy2''] (snd ?call @ [?failed]) @
      [Print [Fore GREEN, Lit ''All multi-proxy instances started successfully.'',
              Style_RESET_ALL]]"
    by blast
  obtain seg where "start_instances no_terminal_env ?d False [''proxy2''] (snd ?call @ [?failed]) =
      (snd ?call @ [?failed]) @ seg"
    using start_instances_extends by blast
  with w3 have "?failed \<in> set (snd (start_multi_proxy_instances no_terminal_env ?d False []))"
    by simp
  with w1 w2 show ?thesis by blast
qed

text \<open>
  C10. For an existing instances directory with listing \<open>entries\<close>, what
  \<open>start_multi_proxy_instances\<close> adds to the launch events of the trace is one block per
  complete entry, in the order of the listing; each block is the entry's start record,
  alone or followed by the start of its own \<^verbatim>\<open>docker compose ... up\<close> and the return of
  that process. So a process is started only after the one before has come back: when no
  process is being waited for at the call, none ever runs beside another and none is
  left running at the return.
\<close>

theorem instances_start_one_after_the_other:
  assumes "os_path_isdir env d"
    and "os_listdir env d = Inr entries"
  shows "(\<exists>segs. launch_events (snd (start_multi_proxy_instances env d skip t)) =
                   launch_events t @ concat segs \<and>
                 list_all2 (instance_attempt d skip) (filter (complete env d) entries) segs) \<and>
         (one_at_a_time False t \<longrightarrow>
            one_at_a_time False (snd (start_multi_proxy_instances env d skip t)))"
proof -
  let ?t1 = "t @ [Print [Fore YELLOW, Lit ''Starting multi-proxy instances...'', Style_RESET_ALL]]"
  let ?done = "[Print [Fore GREEN, Lit ''All multi-proxy instances started successfully.'',
                       Style_RESET_ALL]]"
  obtain seg segs where s: "start_instances env d skip entries ?t1 = ?t1 @ seg"
    and c: "launch_events seg = concat segs"
    and l: "list_all2 (instance_attempt d skip) (filter (complete env d) entries) segs"
    using start_instances_shape by blast
  have r: "snd (start_multi_proxy_instances env d skip t) = ?t1 @ seg @ ?done"
    using assms s by (simp add: start_multi_proxy_instances_def Let_def)
  have e: "launch_events [] = []"
    by (simp add: launch_events_def)
  have le: "launch_events (snd (start_multi_proxy_instances env d skip t)) =
      launch_events t @ concat segs"
    using r c e by (simp add: launch_events_append launch_events_Print)
  have "one_at_a_time False (snd (start_multi_proxy_instances env d skip t))"
    if idle: "one_at_a_time False t"
  proof -
    have "one_at_a_time False (launch_events t)"
      using idle by (simp add: one_at_a_time_launch_events)
    moreover have "one_at_a_time False (concat segs)"
      using l by (rule attempts_one_at_a_time)
    ultimately have "one_at_a_time False (launch_events t @ concat segs)"
      by (simp add: one_at_a_time_append)
    then show ?thesis
      using le one_at_a_time_launch_events [of False "snd (start_multi_proxy_instances env d skip t)"]
      by simp
  qed
  with le l show ?thesis by blast
qed

theorem instances_start_one_after_the_other_witness:
  "(\<exists>outcome1 outcome2.
      launch_events (snd (start_multi_proxy_instances no_terminal_env ''m4b_proxy_instances'' True [])) =
        [instance_start ''m4b_proxy_instances'' ''proxy1'',
         Subprocess_run (up_command ''m4b_proxy_instances/proxy1/docker-compose.yaml''
                           ''m4b_proxy_instances/proxy1/.env''),
         Subprocess_done outcome1,
         instance_start ''m4b_proxy_instances'' ''proxy2'',
         Subprocess_run (up_command ''m4b_proxy_instances/proxy2/docker-compose.yaml''
                           ''m4b_proxy_instances/proxy2/.env''),
         Subprocess_done outcome2]) \<and>
   one_at_a_time False (snd (start_multi_proxy_instances no_terminal_env ''m4b_proxy_instances'' True []))"
proof -
  let ?d = "''m4b_proxy_instances''"
  have dir: "os_path_isdir no_terminal_env ?d"
    by (simp add: no_terminal_env_def instances_env_def)
  have ls: "os_listdir no_terminal_env ?d = Inr [''proxy1'', ''proxy2'']"
    by (simp add: no_terminal_env_def instances_env_def)
  have f: "filter (complete no_terminal_env ?d) [''proxy1'', ''proxy2''] = [''proxy1'', ''proxy2'']"
    by (simp add: complete_def no_terminal_env_def instances_env_def)
  have e: "launch_events [] = []"
    by (simp add: launch_events_def)
  have cf1: "compose_file_of ?d ''proxy1'' = ''m4b_proxy_instances/proxy1/docker-compose.yaml''"
    and ef1: "env_file_of ?d ''proxy1'' = ''m4b_proxy_instances/proxy1/.env''"
    and cf2: "compose_file_of ?d ''proxy2'' = ''m4b_proxy_instances/proxy2/docker-compose.yaml''"
    and ef2: "env_file_of ?d ''proxy2'' = ''m4b_proxy_instances/proxy2/.env''"
    by (simp_all add: compose_file_of_def env_file_of_def os_path_join_def)
  note w = instances_start_one_after_the_other [OF dir ls, of True "[]"]
  then obtain segs where le: "launch_events
        (snd (start_multi_proxy_instances no_terminal_env ?d True [])) = concat segs"
    and l: "list_all2 (instance_attempt ?d True) [''proxy1'', ''proxy2''] segs"
    using f e by auto
  from l obtain s1 s2 where segs: "segs = [s1, s2]"
    and a1: "instance_attempt ?d True ''proxy1'' s1"
    and a2: "instance_attempt ?d True ''proxy2'' s2"
    by (auto simp add: list_all2_Cons1)
  from a1 obtain o1 where s1: "s1 = [instance_start ?d ''proxy1'',
      Subprocess_run (up_command (compose_file_of ?d ''proxy1'') (env_file_of ?d ''proxy1'')),
      Subprocess_done o1]"
    unfolding instance_attempt_def instance_start_def using stack_attempt_skip by blast
  from a2 obtain o2 where s2: "s2 = [instance_start ?d ''proxy2'',
      Subprocess_run (up_command (compose_file_of ?d ''proxy2'') (env_file_of ?d ''proxy2'')),
      Subprocess_done o2]"
    unfolding instance_attempt_def instance_start_def using stack_attempt_skip by blast
  have "launch_events (snd (start_multi_proxy_instances no_terminal_env ?d True [])) =
      [instance_start ?d ''proxy1'',
       Subprocess_run (up_command ''m4b_proxy_instances/proxy1/docker-compose.yaml''
                         ''m4b_proxy_instances/proxy1/.env''),
       Subprocess_done o1,
       instance_start ?d ''proxy2'',
       Subprocess_run (up_command ''m4b_proxy_instances/proxy2/docker-compose.yaml''
                         ''m4b_proxy_instances/proxy2/.env''),
       Subprocess_done o2]"
    using le segs s1 s2 cf1 ef1 cf2 ef2 by simp
  moreover have "one_at_a_time False (snd (start_multi_proxy_instances no_terminal_env ?d True []))"
    using w by simp
  ultimately show ?thesis by blast
qed

text \<open>
  C8. The script's call of \<open>main\<close> passes the keyword \<open>skip_questions\<close>, for which \<open>main\<close> has
  no parameter: whatever the four values, the call raises TypeError before the body of
  \<open>main\<close> runs. So every run of the script ends in an exception and starts no stack. When
  the setup before the call succeeds (the log level is one of the logging module's, the
  log directory can be made and the log file opened), that exception is this TypeError,
  logged as "An unexpected error occurred: ..." and raised again; when the setup fails,
  the run ends there with the setup's exception, before \<open>main\<close> is called.
\<close>

theorem script_fails_before_any_stack:
  "(\<forall>app m4b user skip t'.
      call_main env [(''app_config_path'', app), (''m4b_config_path'', m4b),
                     (''user_config_path'', user), (''skip_questions'', skip)] t' =
        (Inl (TypeError (Unexpected_keyword ''main'' ''skip_questions'')), t')) \<and>
   (\<exists>e. fst (script env a t) = Inl e) \<and>
   launch_events (snd (script env a t)) = launch_events t \<and>
   (\<forall>lvl. logging_level (upper (log_level a)) = Some lvl \<and>
          os_makedirs env (log_dir a) = Inr () \<and>
          logging_basicConfig env (os_path_join (log_dir a) (log_file a)) lvl = Inr () \<longrightarrow>
      script env a t =
        (Inl (TypeError (Unexpected_keyword ''main'' ''skip_questions'')),
         t @ [Basic_config (os_path_join (log_dir a) (log_file a)) lvl,
              Log INFO [Lit ''Starting fn_startStack script...''],
              Log ERROR [Lit ''An unexpected error occurred: '',
                         Str_exn (TypeError (Unexpected_keyword ''main'' ''skip_questions''))]])) \<and>
   (logging_level (upper (log_level a)) = None \<longrightarrow>
      script env a t = (Inl (ValueError (''Invalid log level: '' @ log_level a)), t)) \<and>
   (\<forall>lvl e. logging_level (upper (log_level a)) = Some lvl \<and>
          os_makedirs env (log_dir a) = Inl e \<longrightarrow>
      script env a t = (Inl e, t)) \<and>
   (\<forall>lvl e. logging_level (upper (log_level a)) = Some lvl \<and>
          os_makedirs env (log_dir a) = Inr () \<and>
          logging_basicConfig env (os_path_join (log_dir a) (log_file a)) lvl = Inl e \<longrightarrow>
      script env a t = (Inl e, t))"
proof -
  have call: "call_main env [(''app_config_path'', app), (''m4b_config_path'', m4b),
                     (''user_config_path'', user), (''skip_questions'', skip)] t' =
        (Inl (TypeError (Unexpected_keyword ''main'' ''skip_questions'')), t')"
    for app m4b user skip t'
    by (simp add: call_main_def main_params_def)
  have raised: "\<exists>e. fst (script env a t) = Inl e"
    by (simp add: script_def call Let_def split: option.splits sum.splits)
  have quiet: "launch_events (snd (script env a t)) = launch_events t"
    by (simp add: script_def call Let_def launch_events_def is_launch_event_def is_start_def
          split: option.splits sum.splits)
  have logged: "script env a t =
        (Inl (TypeError (Unexpected_keyword ''main'' ''skip_questions'')),
         t @ [Basic_config (os_path_join (log_dir a) (log_file a)) lvl,
              Log INFO [Lit ''Starting fn_startStack script...''],
              Log ERROR [Lit ''An unexpected error occurred: '',
                         Str_exn (TypeError (Unexpected_keyword ''main'' ''skip_questions''))]])"
    if "logging_level (upper (log_level a)) = Some lvl \<and>
        os_makedirs env (log_dir a) = Inr () \<and>
        logging_basicConfig env (os_path_join (log_dir a) (log_file a)) lvl = Inr ()"
    for lvl
    using that by (simp add: script_def call Let_def)
  have level: "script env a t = (Inl (ValueError (''Invalid log level: '' @ log_level a)), t)"
    if "logging_level (upper (log_level a)) = None"
    using that by (simp add: script_def)
  have nodir: "script env a t = (Inl e, t)"
    if "logging_level (upper (log_level a)) = Some lvl \<and> os_makedirs env (log_dir a) = Inl e"
    for lvl e
    using that by (simp add: script_def)
  have nofile: "script env a t = (Inl e, t)"
    if "logging_level (upper (log_level a)) = Some lvl \<and>
        os_makedirs env (log_dir a) = Inr () \<and>
        logging_basicConfig env (os_path_join (log_dir a) (log_file a)) lvl = Inl e"
    for lvl e
    using that by (simp add: script_def)
  from call raised quiet logged level nodir nofile show ?thesis by blast
qed

theorem script_fails_before_any_stack_witness:
  "script instances_env example_args [] =
     (Inl (TypeError (Unexpected_keyword ''main'' ''skip_questions'')),
      [Basic_config ''./logs/fn_startStack.log'' 20,
       Log INFO [Lit ''Starting fn_startStack script...''],
       Log ERROR [Lit ''An unexpected error occurred: '',
                  Str_exn (TypeError (Unexpected_keyword ''main'' ''skip_questions''))]]) \<and>
   script (instances_env\<lparr>logging_basicConfig :=
              (\<lambda>f l. Inl (FileNotFoundError f))\<rparr>) example_args [] =
     (Inl (FileNotFoundError ''./logs/fn_startStack.log''), [])"
proof -
  let ?env' = "instances_env\<lparr>logging_basicConfig := (\<lambda>f l. Inl (FileNotFoundError f))\<rparr>"
  have p: "os_path_join (log_dir example_args) (log_file example_args) = ''./logs/fn_startStack.log''"
    by (simp add: os_path_join_def example_args_def)
  have l: "logging_level (upper (log_level example_args)) = Some 20 \<and>
      os_makedirs instances_env (log_dir example_args) = Inr () \<and>
      logging_basicConfig instances_env
        (os_path_join (log_dir example_args) (log_file example_args)) 20 = Inr ()"
    by (simp add: logging_level_def upper_def upper_char_def example_args_def instances_env_def)
  have l': "logging_level (upper (log_level example_args)) = Some 20 \<and>
      os_makedirs ?env' (log_dir example_args) = Inr () \<and>
      logging_basicConfig ?env' (os_path_join (log_dir example_args) (log_file example_args)) 20 =
        Inl (FileNotFoundError ''./logs/fn_startStack.log'')"
    unfolding p
    by (simp add: logging_level_def upper_def upper_char_def example_args_def instances_env_def)
  have "script instances_env example_args [] =
     (Inl (TypeError (Unexpected_keyword ''main'' ''skip_questions'')),
      [] @ [Basic_config (os_path_join (log_dir example_args) (log_file example_args)) 20,
       Log INFO [Lit ''Starting fn_startStack script...''],
       Log ERROR [Lit ''An unexpected error occurred: '',
                  Str_exn (TypeError (Unexpected_keyword ''main'' ''skip_questions''))]])"
    using script_fails_before_any_stack [of instances_env example_args "[]"] l by blast
  moreover have "script ?env' example_args [] =
      (Inl (FileNotFoundError ''./logs/fn_startStack.log''), [])"
    using script_fails_before_any_stack [of ?env' example_args "[]"] l' by blast
  ultimately show ?thesis by (simp add: p)
qed

end
